theory Spec2Isabelle
  imports Main "HOL-Library.Sublist"
begin

section \<open>Python strings and integers\<close>

text \<open>
  A Python \<open>str\<close> is a sequence of Unicode code points and is modelled as a list
  of natural numbers; the ASCII literals of the source are written \<open>ascii ''...''\<close>.
  The whitespace code points are those of \<open>str.isspace\<close>, listed in full. What the
  interpreter knows about a code point above 127 (its value as a decimal digit, the
  case mappings of a text that holds one) comes from its Unicode database, and the
  largest number of digits that \<open>int\<close> and \<open>str\<close> convert is a setting of the
  interpreter: these are the fields of \<open>interp\<close>, a parameter of every function
  that depends on them. On ASCII text nothing depends on the parameter.
\<close>

type_synonym str = "nat list"

abbreviation ord :: "char \<Rightarrow> nat" where
  "ord \<equiv> of_char"

definition ascii :: "string \<Rightarrow> str" where
  "ascii s = map ord s"

record interp =
  uc_decimal :: "nat \<Rightarrow> nat option"
    \<comment> \<open>the digit value of a code point above 127 of category Nd; \<open>None\<close> for any other\<close>
  uc_upper :: "str \<Rightarrow> str"  \<comment> \<open>\<open>str.upper\<close> of a text that is not ASCII\<close>
  uc_lower :: "str \<Rightarrow> str"  \<comment> \<open>\<open>str.lower\<close> of a text that is not ASCII\<close>
  int_max_str_digits :: nat  \<comment> \<open>\<open>sys.get_int_max_str_digits()\<close>; 0 when there is no limit\<close>

definition is_space :: "nat \<Rightarrow> bool" where
  \<comment> \<open>\<open>str.isspace\<close>, also the class \<open>\s\<close> and what \<open>strip\<close> and \<open>split\<close> remove.\<close>
  "is_space c = (c \<in> set [0x09, 0x0A, 0x0B, 0x0C, 0x0D, 0x1C, 0x1D, 0x1E, 0x1F, 0x20,
                           0x85, 0xA0, 0x1680, 0x2000, 0x2001, 0x2002, 0x2003, 0x2004,
                           0x2005, 0x2006, 0x2007, 0x2008, 0x2009, 0x200A, 0x2028, 0x2029,
                           0x202F, 0x205F, 0x3000])"

definition decimal :: "interp \<Rightarrow> nat \<Rightarrow> nat option" where
  \<comment> \<open>The value of a code point as a decimal digit, \<open>None\<close> when it is none.\<close>
  "decimal I c =
     (if c < 128 then
        (if ord CHR ''0'' \<le> c \<and> c \<le> ord CHR ''9'' then Some (c - ord CHR ''0'') else None)
      else uc_decimal I c)"

definition is_digit :: "interp \<Rightarrow> nat \<Rightarrow> bool" where
  \<comment> \<open>The class \<open>\d\<close>, and the digits that \<open>int\<close> reads.\<close>
  "is_digit I c = (decimal I c \<noteq> None)"

definition digit_val :: "interp \<Rightarrow> nat \<Rightarrow> nat" where
  \<comment> \<open>Only applied to digits.\<close>
  "digit_val I c = (case decimal I c of None \<Rightarrow> 0 | Some d \<Rightarrow> d)"

definition is_alpha :: "nat \<Rightarrow> bool" where
  \<comment> \<open>The class \<open>[a-zA-Z]\<close>.\<close>
  "is_alpha c = ((ord CHR ''a'' \<le> c \<and> c \<le> ord CHR ''z'') \<or> (ord CHR ''A'' \<le> c \<and> c \<le> ord CHR ''Z''))"

definition is_ascii :: "str \<Rightarrow> bool" where
  "is_ascii s = list_all (\<lambda>c. c < 128) s"

definition upper_char :: "nat \<Rightarrow> nat" where
  "upper_char c = (if ord CHR ''a'' \<le> c \<and> c \<le> ord CHR ''z'' then c - 32 else c)"

definition lower_char :: "nat \<Rightarrow> nat" where
  "lower_char c = (if ord CHR ''A'' \<le> c \<and> c \<le> ord CHR ''Z'' then c + 32 else c)"

definition upper :: "interp \<Rightarrow> str \<Rightarrow> str" where
  \<comment> \<open>\<open>str.upper\<close>\<close>
  "upper I s = (if is_ascii s then map upper_char s else uc_upper I s)"

definition lower :: "interp \<Rightarrow> str \<Rightarrow> str" where
  \<comment> \<open>\<open>str.lower\<close>\<close>
  "lower I s = (if is_ascii s then map lower_char s else uc_lower I s)"

definition strip :: "str \<Rightarrow> str" where
  \<comment> \<open>\<open>str.strip\<close> with no argument: whitespace removed at both ends.\<close>
  "strip s = rev (dropWhile is_space (rev (dropWhile is_space s)))"

definition startswith :: "str \<Rightarrow> str \<Rightarrow> bool" where
  \<comment> \<open>\<open>s.startswith(p)\<close>\<close>
  "startswith s p = prefix p s"

fun split_acc :: "str \<Rightarrow> str \<Rightarrow> str list" where
  "split_acc cur [] = (if cur = [] then [] else [cur])"
| "split_acc cur (c # cs) =
     (if is_space c then (if cur = [] then split_acc [] cs else cur # split_acc [] cs)
      else split_acc (cur @ [c]) cs)"

definition split :: "str \<Rightarrow> str list" where
  \<comment> \<open>\<open>str.split\<close> with no argument: the maximal runs of non-whitespace.\<close>
  "split s = split_acc [] s"

datatype exn =
    RuntimeError str
  | ValueError
  | IndexError
  | VisaError str  \<comment> \<open>an exception raised inside the pyvisa library\<close>

definition digit_char :: "nat \<Rightarrow> nat" where
  \<comment> \<open>Only applied to \<open>d < 10\<close>.\<close>
  "digit_char d = ord CHR ''0'' + d"

fun str_nat :: "nat \<Rightarrow> str" where
  "str_nat n = (if n < 10 then [digit_char n] else str_nat (n div 10) @ [digit_char (n mod 10)])"

declare str_nat.simps [simp del]

definition decimal_string :: "int \<Rightarrow> str" where
  \<comment> \<open>The decimal text of an integer, with a minus sign when negative.\<close>
  "decimal_string i = (if i < 0 then ord CHR ''-'' # str_nat (nat (- i)) else str_nat (nat i))"

definition over_limit :: "interp \<Rightarrow> nat \<Rightarrow> nat \<Rightarrow> bool" where
  \<comment> \<open>The check of a conversion of \<open>nd\<close> digits in a text of \<open>len\<close> characters against
      the limit: texts of at most 640 characters are never refused.\<close>
  "over_limit I len nd \<longleftrightarrow> 640 < len \<and> 0 < int_max_str_digits I \<and> int_max_str_digits I < nd"

definition str_int :: "interp \<Rightarrow> int \<Rightarrow> exn + str" where
  \<comment> \<open>\<open>str(n)\<close> of a Python integer: ValueError when the number of digits exceeds the limit.\<close>
  "str_int I i =
     (let text = decimal_string i in
      if over_limit I (length text) (length (str_nat (nat \<bar>i\<bar>))) then Inl ValueError
      else Inr text)"

fun digits_from :: "interp \<Rightarrow> nat \<Rightarrow> str \<Rightarrow> nat option" where
  \<comment> \<open>After a digit: more digits, each optionally preceded by one underscore.\<close>
  "digits_from I acc [] = Some acc"
| "digits_from I acc [c] = (if is_digit I c then Some (10 * acc + digit_val I c) else None)"
| "digits_from I acc (c # d # ds) =
     (if is_digit I c then digits_from I (10 * acc + digit_val I c) (d # ds)
      else if c = ord CHR ''_'' \<and> is_digit I d then digits_from I (10 * acc + digit_val I d) ds
      else None)"

definition digits :: "interp \<Rightarrow> str \<Rightarrow> nat option" where
  "digits I s = (case s of [] \<Rightarrow> None
                 | c # cs \<Rightarrow> if is_digit I c then digits_from I (digit_val I c) cs else None)"

definition int_space :: "nat \<Rightarrow> bool" where
  \<comment> \<open>The blanks that \<open>int\<close> skips at both ends of its argument: the whitespace
      without the four separators FS, GS, RS and US.\<close>
  "int_space c = (is_space c \<and> c \<notin> set [0x1C, 0x1D, 0x1E, 0x1F])"

definition py_int :: "interp \<Rightarrow> str \<Rightarrow> exn + int" where
  \<comment> \<open>\<open>int(s)\<close> in base 10: surrounding blanks, an optional sign, then digits with
      single underscores between them; anything else raises ValueError, and so does a
      number of digits above the limit (sign and underscores do not count).\<close>
  "py_int I s =
     (let t = rev (dropWhile int_space (rev (dropWhile int_space s)));
          neg = (case t of [] \<Rightarrow> False | c # cs \<Rightarrow> c = ord CHR ''-'');
          body = (case t of [] \<Rightarrow> []
                  | c # cs \<Rightarrow> if c = ord CHR ''-'' \<or> c = ord CHR ''+'' then cs else t);
          nd = length (filter (is_digit I) body)
      in case digits I body of
           None \<Rightarrow> Inl ValueError
         | Some n \<Rightarrow>
             if over_limit I nd nd then Inl ValueError
             else Inr (if neg then - int n else int n))"

definition last_item :: "'a list \<Rightarrow> exn + 'a" where
  \<comment> \<open>\<open>xs[-1]\<close>: IndexError on the empty list.\<close>
  "last_item xs = (if xs = [] then Inl IndexError else Inr (last xs))"

section \<open>Simulator driver (drivers/fake\_meter.py)\<close>

record FakeMeter =
  fm_inst :: "bool option"
  fm_resource :: str
  fm_backend_in_use :: str
  fm_freq_hz :: int

definition FakeMeter_init :: FakeMeter where
  "FakeMeter_init =
     \<lparr> fm_inst = Some True, fm_resource = ascii ''FAKE'', fm_backend_in_use = ascii ''FAKE'',
       fm_freq_hz = 1000000000 \<rparr>"

definition msg_fake_resource :: str where
  \<comment> \<open>The message raised by \<open>FakeMeter.connect\<close> (wrong resource, 'FAKE' expected).\<close>
  "msg_fake_resource =
    [0x46, 0x61, 0x6B, 0x65, 0x4D, 0x65, 0x74, 0x65, 0x72, 0x3A, 0x20, 0x43D, 0x435, 0x432,
     0x435, 0x440, 0x43D, 0x44B, 0x439, 0x20, 0x440, 0x435, 0x441, 0x443, 0x440, 0x441,
     0x20, 0x28, 0x43E, 0x436, 0x438, 0x434, 0x430, 0x43B, 0x43E, 0x441, 0x44C, 0x20, 0x27,
     0x46, 0x41, 0x4B, 0x45, 0x27, 0x29]"

definition FakeMeter_is_connected_to :: "interp \<Rightarrow> FakeMeter \<Rightarrow> str \<Rightarrow> bool" where
  "FakeMeter_is_connected_to I fm resource =
     (fm_inst fm \<noteq> None \<and> upper I resource = ascii ''FAKE'')"

definition FakeMeter_connect :: "interp \<Rightarrow> FakeMeter \<Rightarrow> str \<Rightarrow> exn option" where
  \<comment> \<open>Changes no field; \<open>None\<close> is the normal return.\<close>
  "FakeMeter_connect I fm resource =
     (if upper I resource \<noteq> ascii ''FAKE'' then Some (RuntimeError msg_fake_resource) else None)"

definition FakeMeter_close :: "FakeMeter \<Rightarrow> FakeMeter" where
  "FakeMeter_close fm = fm\<lparr>fm_inst := None\<rparr>"

definition FakeMeter_query :: "interp \<Rightarrow> str \<Rightarrow> FakeMeter \<Rightarrow> str \<Rightarrow> exn + str" where
  \<comment> \<open>The second argument is the text \<open>f"{random.uniform(-50.0, -40.0):.3f}"\<close> that
      the random generator yields at this call. \<open>Inl\<close> is an exception leaving
      \<open>query\<close>: only \<open>str\<close> of the frequency can raise.\<close>
  "FakeMeter_query I dbm fm cmd =
     (let cmdu = upper I (strip cmd) in
      if startswith cmdu (ascii ''*IDN?'') then Inr (ascii ''FAKE,USB Power Sensor Simulator,0,1.0'')
      else if startswith cmdu (ascii ''MEAS:POW?'') \<or> startswith cmdu (ascii ''READ?'')
              \<or> startswith cmdu (ascii ''FETC:POW?'') then Inr dbm
      else if startswith cmdu (ascii ''SENS:FREQ?'') \<or> startswith cmdu (ascii ''FREQ?'')
        then str_int I (fm_freq_hz fm)
      else Inr (ascii ''0''))"

definition FakeMeter_write :: "interp \<Rightarrow> FakeMeter \<Rightarrow> str \<Rightarrow> exn + FakeMeter" where
  \<comment> \<open>\<open>Inl\<close> would be an exception leaving \<open>write\<close>; the body of the \<open>try\<close> is
      \<open>last_item\<close> then \<open>py_int\<close>, and the handler catches every exception.\<close>
  "FakeMeter_write I fm cmd =
     (let cmdu = upper I (strip cmd) in
      if startswith cmdu (ascii ''SENS:POW:ZERO:IMM'') \<or> startswith cmdu (ascii ''CAL:ZERO'')
        then Inr fm
      else if startswith cmdu (ascii ''SENS:FREQ '') \<or> startswith cmdu (ascii ''FREQ '') then
        (case last_item (split cmdu) of
           Inl e \<Rightarrow> Inr fm
         | Inr tok \<Rightarrow>
             (case py_int I tok of
                Inl e \<Rightarrow> Inr fm
              | Inr val \<Rightarrow> Inr (fm\<lparr>fm_freq_hz := val\<rparr>)))
      else Inr fm)"

definition FakeMeter_idn :: str where
  \<comment> \<open>The identification text of \<open>FakeMeter.idn\<close>.\<close>
  "FakeMeter_idn =
    [0x424, 0x435, 0x439, 0x43A, 0x43C, 0x435, 0x442, 0x440, 0x43E, 0x43D]
      @ ascii '',USB Power Sensor Simulator,0,1.0''"

section \<open>Constants (core/constants.py)\<close>

definition DEFAULT_BACKENDS :: "str list" where
  "DEFAULT_BACKENDS = [ascii ''@py'', []]"

definition READ_TERM :: str where
  "READ_TERM = [0x0A]"

definition WRITE_TERM :: str where
  "WRITE_TERM = [0x0A]"

definition SCPI_QUERY_POWER :: str where
  "SCPI_QUERY_POWER = ascii ''MEAS:POW?''"

definition SCPI_ZERO :: str where
  "SCPI_ZERO = ascii ''SENS:POW:ZERO:IMM''"

definition SCPI_QUERY_FREQ :: str where
  "SCPI_QUERY_FREQ = ascii ''SENS:FREQ?''"

section \<open>The world outside the program\<close>

text \<open>
  The pyvisa library and the random generator are the environment. Each call of the
  program into pyvisa is answered by a field of \<open>env\<close>: \<open>None\<close> (or \<open>Inr\<close>) when
  the call returns, \<open>Some e\<close> (or \<open>Inl e\<close>) when it raises \<open>e\<close>. The calls that
  open or close something are recorded, in order, in a log of events, so that a
  statement can speak about which calls were made. Locks are left out: one thread
  runs at a time in this model.
\<close>

record visa_inst =
  inst_backend :: str
  inst_address :: str
  inst_timeout :: int
  inst_read_termination :: str
  inst_write_termination :: str

record env =
  HAS_VISA :: bool  \<comment> \<open>\<open>import pyvisa\<close> succeeded\<close>
  visa_ResourceManager :: "str \<Rightarrow> exn option"  \<comment> \<open>backend\<close>
  visa_open_resource :: "str \<Rightarrow> str \<Rightarrow> exn option"  \<comment> \<open>backend, address\<close>
  visa_clear :: "str \<Rightarrow> str \<Rightarrow> exn option"  \<comment> \<open>backend, address\<close>
  visa_query :: "visa_inst \<Rightarrow> str \<Rightarrow> exn + str"
  visa_write :: "visa_inst \<Rightarrow> str \<Rightarrow> exn option"
  visa_list_resources :: "str \<Rightarrow> str \<Rightarrow> exn + str list"  \<comment> \<open>backend, pattern\<close>
  random_dbm :: str  \<comment> \<open>the text \<open>f"{random.uniform(-50.0, -40.0):.3f}"\<close>\<close>

datatype event =
    Ev_ResourceManager str  \<comment> \<open>\<open>pyvisa.ResourceManager(be)\<close>\<close>
  | Ev_open_resource str str  \<comment> \<open>\<open>rm.open_resource(resource)\<close> on a backend\<close>
  | Ev_clear str str  \<comment> \<open>\<open>inst.clear()\<close>\<close>
  | Ev_inst_close str str  \<comment> \<open>\<open>inst.close()\<close>\<close>
  | Ev_FakeMeter_connect str  \<comment> \<open>\<open>FakeMeter()\<close> and its \<open>connect\<close>\<close>
  | Ev_FakeMeter_close  \<comment> \<open>\<open>FakeMeter.close()\<close>\<close>

section \<open>Real driver (drivers/visa\_meter.py)\<close>

definition msg_no_connection :: str where
  \<comment> \<open>The message of the "no connection" RuntimeError.\<close>
  "msg_no_connection =
    [0x41D, 0x435, 0x442, 0x20, 0x441, 0x43E, 0x435, 0x434, 0x438, 0x43D, 0x435, 0x43D,
     0x438, 0x44F]"

definition msg_open_failed :: str where
  \<comment> \<open>The message raised when no backend was tried ("could not open the resource").\<close>
  "msg_open_failed =
    [0x41D, 0x435, 0x20, 0x443, 0x434, 0x430, 0x43B, 0x43E, 0x441, 0x44C, 0x20, 0x43E,
     0x442, 0x43A, 0x440, 0x44B, 0x442, 0x44C, 0x20, 0x440, 0x435, 0x441, 0x443, 0x440,
     0x441]"

definition msg_no_pyvisa :: str where
  \<comment> \<open>The message of \<open>VisaMeter.__init__\<close> ("PyVISA is not installed").\<close>
  "msg_no_pyvisa =
    [0x50, 0x79, 0x56, 0x49, 0x53, 0x41, 0x20, 0x43D, 0x435, 0x20, 0x443, 0x441, 0x442,
     0x430, 0x43D, 0x43E, 0x432, 0x43B, 0x435, 0x43D]"

record VisaMeter =
  vm_backend_order :: "str list"
  vm_rm :: "str option"  \<comment> \<open>the resource manager, named by its backend\<close>
  vm_inst :: "visa_inst option"
  vm_resource :: "str option"
  vm_backend_in_use :: "str option"
  vm_read_term :: str
  vm_write_term :: str

definition VisaMeter_init :: "env \<Rightarrow> str list \<Rightarrow> str \<Rightarrow> str \<Rightarrow> exn + VisaMeter" where
  "VisaMeter_init ev backend_order read_term write_term =
     (if \<not> HAS_VISA ev then Inl (RuntimeError msg_no_pyvisa)
      else Inr \<lparr> vm_backend_order = backend_order, vm_rm = None, vm_inst = None,
                 vm_resource = None, vm_backend_in_use = None,
                 vm_read_term = read_term, vm_write_term = write_term \<rparr>)"

definition VisaMeter_close_unlocked :: "VisaMeter \<Rightarrow> event list \<Rightarrow> VisaMeter \<times> event list" where
  \<comment> \<open>An exception of \<open>inst.close()\<close> is swallowed, so its outcome is not consulted.\<close>
  "VisaMeter_close_unlocked vm log =
     (vm\<lparr>vm_inst := None, vm_rm := None, vm_resource := None, vm_backend_in_use := None\<rparr>,
      case vm_inst vm of
        None \<Rightarrow> log
      | Some i \<Rightarrow> log @ [Ev_inst_close (inst_backend i) (inst_address i)])"

definition VisaMeter_is_connected_to :: "VisaMeter \<Rightarrow> str \<Rightarrow> bool" where
  "VisaMeter_is_connected_to vm resource = (vm_inst vm \<noteq> None \<and> vm_resource vm = Some resource)"

fun try_backends ::
  "env \<Rightarrow> str \<Rightarrow> int \<Rightarrow> str list \<Rightarrow> exn option \<Rightarrow> VisaMeter \<Rightarrow> event list
     \<Rightarrow> VisaMeter \<times> event list \<times> exn option" where
  \<comment> \<open>The \<open>for be in self.backend_order\<close> loop of \<open>connect\<close> and the \<open>raise\<close> after it;
      the fifth argument is \<open>last_err\<close>. The three attribute assignments on the session
      are field updates.\<close>
  "try_backends ev resource timeout_ms [] last_err vm log =
     (vm, log, Some (case last_err of Some e \<Rightarrow> e | None \<Rightarrow> RuntimeError msg_open_failed))"
| "try_backends ev resource timeout_ms (be # bes) last_err vm log =
     (case visa_ResourceManager ev be of
        Some e \<Rightarrow>
          try_backends ev resource timeout_ms bes (Some e)
            (vm\<lparr>vm_rm := None, vm_inst := None\<rparr>) (log @ [Ev_ResourceManager be])
      | None \<Rightarrow>
          (case visa_open_resource ev be resource of
             Some e \<Rightarrow>
               try_backends ev resource timeout_ms bes (Some e)
                 (vm\<lparr>vm_rm := None, vm_inst := None\<rparr>)
                 (log @ [Ev_ResourceManager be, Ev_open_resource be resource])
           | None \<Rightarrow>
               (let inst = \<lparr> inst_backend = be, inst_address = resource,
                              inst_timeout = timeout_ms,
                              inst_read_termination = vm_read_term vm,
                              inst_write_termination = vm_write_term vm \<rparr>;
                    cleared = (case visa_clear ev be resource of Some e \<Rightarrow> () | None \<Rightarrow> ())
                in (vm\<lparr>vm_rm := Some be, vm_inst := Some inst,
                        vm_backend_in_use := Some (if be = [] then (ascii ''default'') else be),
                        vm_resource := Some resource\<rparr>,
                    log @ [Ev_ResourceManager be, Ev_open_resource be resource,
                           Ev_clear be resource],
                    None))))"

definition VisaMeter_connect ::
  "env \<Rightarrow> VisaMeter \<Rightarrow> str \<Rightarrow> int \<Rightarrow> event list \<Rightarrow> VisaMeter \<times> event list \<times> exn option" where
  "VisaMeter_connect ev vm resource timeout_ms log =
     (if VisaMeter_is_connected_to vm resource then (vm, log, None)
      else case VisaMeter_close_unlocked vm log of
             (vm1, log1) \<Rightarrow>
               try_backends ev resource timeout_ms (vm_backend_order vm1) None vm1 log1)"

definition VisaMeter_close :: "VisaMeter \<Rightarrow> event list \<Rightarrow> VisaMeter \<times> event list" where
  "VisaMeter_close vm log = VisaMeter_close_unlocked vm log"

definition VisaMeter_query :: "env \<Rightarrow> VisaMeter \<Rightarrow> str \<Rightarrow> exn + str" where
  "VisaMeter_query ev vm cmd =
     (case vm_inst vm of
        None \<Rightarrow> Inl (RuntimeError msg_no_connection)
      | Some i \<Rightarrow> visa_query ev i cmd)"

definition VisaMeter_write :: "env \<Rightarrow> VisaMeter \<Rightarrow> str \<Rightarrow> exn option" where
  "VisaMeter_write ev vm cmd =
     (case vm_inst vm of
        None \<Rightarrow> Some (RuntimeError msg_no_connection)
      | Some i \<Rightarrow> visa_write ev i cmd)"

definition VisaMeter_idn :: "env \<Rightarrow> VisaMeter \<Rightarrow> str" where
  "VisaMeter_idn ev vm =
     (case VisaMeter_query ev vm (ascii ''*IDN?'') of Inl e \<Rightarrow> [] | Inr s \<Rightarrow> s)"

section \<open>Connection facade (core/meter.py)\<close>

datatype impl = FakeImpl FakeMeter | VisaImpl VisaMeter

record Meter =
  m_backend_order :: "str list"
  m_backend_in_use :: "str option"
  m_impl :: "impl option"
  m_resource :: "str option"

definition Meter_init :: "str list \<Rightarrow> Meter" where
  "Meter_init backend_order =
     \<lparr> m_backend_order = backend_order, m_backend_in_use = None, m_impl = None,
       m_resource = None \<rparr>"

definition msg_fake_idn :: str where
  \<comment> \<open>The text \<open>Meter.idn\<close> returns when no driver is active.\<close>
  "msg_fake_idn =
    [0x424, 0x435, 0x439, 0x43A, 0x43E, 0x43C, 0x435, 0x442, 0x440, 0x20, 0x31, 0x2E, 0x30]"

definition Meter_is_connected_to :: "Meter \<Rightarrow> str \<Rightarrow> bool" where
  "Meter_is_connected_to m resource = (m_impl m \<noteq> None \<and> m_resource m = Some resource)"

definition Meter_close :: "Meter \<Rightarrow> event list \<Rightarrow> Meter \<times> event list" where
  \<comment> \<open>Neither driver's \<open>close\<close> raises; the closed driver object is dropped.\<close>
  "Meter_close m log =
     (m\<lparr>m_impl := None, m_backend_in_use := None, m_resource := None\<rparr>,
      case m_impl m of
        None \<Rightarrow> log
      | Some (FakeImpl fm) \<Rightarrow> log @ [Ev_FakeMeter_close]
      | Some (VisaImpl vm) \<Rightarrow> snd (VisaMeter_close vm log))"

definition Meter_connect ::
  "interp \<Rightarrow> env \<Rightarrow> Meter \<Rightarrow> str \<Rightarrow> int \<Rightarrow> event list
     \<Rightarrow> Meter \<times> event list \<times> exn option" where
  "Meter_connect I ev m resource timeout_ms log =
     (let res_upper = upper I (strip resource) in
      if Meter_is_connected_to m resource then (m, log, None)
      else case Meter_close m log of
        (m1, log1) \<Rightarrow>
          if res_upper = ascii ''FAKE'' then
            (let m2 = m1\<lparr>m_impl := Some (FakeImpl FakeMeter_init)\<rparr>;
                 log2 = log1 @ [Ev_FakeMeter_connect (ascii ''FAKE'')]
             in case FakeMeter_connect I FakeMeter_init (ascii ''FAKE'') of
                  Some e \<Rightarrow> (m2, log2, Some e)
                | None \<Rightarrow>
                    (m2\<lparr>m_backend_in_use := Some (ascii ''FAKE''),
                        m_resource := Some (ascii ''FAKE'')\<rparr>,
                     log2, None))
          else
            (case VisaMeter_init ev (m_backend_order m1) READ_TERM WRITE_TERM of
               Inl e \<Rightarrow> (m1, log1, Some e)
             | Inr impl0 \<Rightarrow>
                 (case VisaMeter_connect ev impl0 resource timeout_ms log1 of
                    (impl1, log2, Some e) \<Rightarrow> (m1, log2, Some e)
                  | (impl1, log2, None) \<Rightarrow>
                      (m1\<lparr>m_impl := Some (VisaImpl impl1),
                          m_backend_in_use := vm_backend_in_use impl1,
                          m_resource := Some resource\<rparr>,
                       log2, None))))"

definition Meter_query :: "interp \<Rightarrow> env \<Rightarrow> Meter \<Rightarrow> str \<Rightarrow> exn + str" where
  "Meter_query I ev m cmd =
     (case m_impl m of
        None \<Rightarrow> Inl (RuntimeError msg_no_connection)
      | Some (FakeImpl fm) \<Rightarrow> FakeMeter_query I (random_dbm ev) fm cmd
      | Some (VisaImpl vm) \<Rightarrow> VisaMeter_query ev vm cmd)"

definition Meter_write :: "interp \<Rightarrow> env \<Rightarrow> Meter \<Rightarrow> str \<Rightarrow> exn + Meter" where
  \<comment> \<open>\<open>Inr\<close> is the facade after a write that returned.\<close>
  "Meter_write I ev m cmd =
     (case m_impl m of
        None \<Rightarrow> Inl (RuntimeError msg_no_connection)
      | Some (FakeImpl fm) \<Rightarrow>
          (case FakeMeter_write I fm cmd of
             Inl e \<Rightarrow> Inl e
           | Inr fm' \<Rightarrow> Inr (m\<lparr>m_impl := Some (FakeImpl fm')\<rparr>))
      | Some (VisaImpl vm) \<Rightarrow>
          (case VisaMeter_write ev vm cmd of Some e \<Rightarrow> Inl e | None \<Rightarrow> Inr m))"

definition Meter_idn :: "env \<Rightarrow> Meter \<Rightarrow> str" where
  "Meter_idn ev m =
     (case m_impl m of
        None \<Rightarrow> msg_fake_idn
      | Some (FakeImpl fm) \<Rightarrow> FakeMeter_idn
      | Some (VisaImpl vm) \<Rightarrow> VisaMeter_idn ev vm)"

section \<open>Discovery (drivers/discovery.py) and the controller's scan\<close>

fun add_resources :: "str list \<Rightarrow> str list \<times> str set \<Rightarrow> str list \<times> str set" where
  \<comment> \<open>The inner loop over one backend's resources; the state is \<open>(addrs, seen)\<close>.\<close>
  "add_resources [] (addrs, seen) = (addrs, seen)"
| "add_resources (r # res) (addrs, seen) =
     (if r \<notin> seen then add_resources res (addrs @ [r], insert r seen)
      else add_resources res (addrs, seen))"

fun scan_backends :: "env \<Rightarrow> str list \<Rightarrow> str list \<times> str set \<Rightarrow> str list \<times> str set" where
  "scan_backends ev [] st = st"
| "scan_backends ev (be # bes) st =
     scan_backends ev bes
       (case visa_ResourceManager ev be of
          Some e \<Rightarrow> st
        | None \<Rightarrow>
            (case visa_list_resources ev be (ascii ''USB?*::INSTR'') of
               Inl e \<Rightarrow> st
             | Inr res \<Rightarrow> add_resources res st))"

definition scan_usb_usbtmc :: "env \<Rightarrow> str list \<Rightarrow> str list" where
  "scan_usb_usbtmc ev backends =
     (if \<not> HAS_VISA ev then [] else fst (scan_backends ev backends ([], {})))"

definition MeasurementController_scan :: "env \<Rightarrow> str list" where
  "MeasurementController_scan ev =
     (let addrs = scan_usb_usbtmc ev DEFAULT_BACKENDS in
      if ascii ''FAKE'' \<notin> set addrs then addrs @ [ascii ''FAKE''] else addrs)"

section \<open>Unit-suffix parser (core/utils.py)\<close>

text \<open>
  Python floats are not computed here. The three operations of the parser on
  floats are parameters: \<open>float(s)\<close> (which raises ValueError on a text it does
  not accept, \<open>None\<close> below), the value of a float literal of the source, and the
  product of two floats.
\<close>

record 'f pyfloat =
  float_of_str :: "str \<Rightarrow> 'f option"
  float_lit :: "string \<Rightarrow> 'f"
  float_mul :: "'f \<Rightarrow> 'f \<Rightarrow> 'f"

text \<open>
  The regular expression is read with the semantics of a backtracking matcher: a
  pattern maps the text to the list of its matches \<open>(matched, rest)\<close> at the start
  of the text, in the order in which the matcher tries them (greedy: longer first).
  The match that \<open>re\<close> reports is the first of the list.
\<close>

type_synonym matcher = "str \<Rightarrow> (str \<times> str) list"

definition re_class :: "(nat \<Rightarrow> bool) \<Rightarrow> matcher" where
  \<comment> \<open>One character of a class.\<close>
  "re_class P s = (case s of [] \<Rightarrow> [] | c # cs \<Rightarrow> if P c then [([c], cs)] else [])"

definition re_opt :: "matcher \<Rightarrow> matcher" where
  \<comment> \<open>\<open>p?\<close>\<close>
  "re_opt p s = p s @ [([], s)]"

definition re_then :: "matcher \<Rightarrow> (str \<times> str) list \<Rightarrow> (str \<times> str) list" where
  \<comment> \<open>Continue each match of a list with \<open>q\<close>, keeping the order.\<close>
  "re_then q alts = concat (map (\<lambda>(a, r). map (\<lambda>(b, r'). (a @ b, r')) (q r)) alts)"

definition re_seq :: "matcher \<Rightarrow> matcher \<Rightarrow> matcher" where
  \<comment> \<open>\<open>pq\<close>\<close>
  "re_seq p q s = re_then q (p s)"

fun re_star :: "(nat \<Rightarrow> bool) \<Rightarrow> matcher" where
  \<comment> \<open>\<open>[class]*\<close>\<close>
  "re_star P [] = [([], [])]"
| "re_star P (c # cs) =
     (if P c then map (\<lambda>(a, r). (c # a, r)) (re_star P cs) else []) @ [([], c # cs)]"

definition re_plus :: "(nat \<Rightarrow> bool) \<Rightarrow> matcher" where
  \<comment> \<open>\<open>[class]+\<close>\<close>
  "re_plus P = re_seq (re_class P) (re_star P)"

definition is_sign :: "nat \<Rightarrow> bool" where
  \<comment> \<open>The class \<open>[-+]\<close>.\<close>
  "is_sign c = (c = ord CHR ''-'' \<or> c = ord CHR ''+'')"

definition is_point :: "nat \<Rightarrow> bool" where
  "is_point c = (c = ord CHR ''.'')"

definition is_e :: "nat \<Rightarrow> bool" where
  \<comment> \<open>The class \<open>[eE]\<close>.\<close>
  "is_e c = (c = ord CHR ''e'' \<or> c = ord CHR ''E'')"

definition re_exponent :: "interp \<Rightarrow> matcher" where
  \<comment> \<open>\<open>[eE][-+]?\d+\<close>\<close>
  "re_exponent I =
     re_seq (re_class is_e) (re_seq (re_opt (re_class is_sign)) (re_plus (is_digit I)))"

definition re_number :: "interp \<Rightarrow> matcher" where
  \<comment> \<open>Group 1: \<open>[-+]?\d*\.?\d+(?:[eE][-+]?\d+)?\<close>\<close>
  "re_number I =
     re_seq (re_opt (re_class is_sign))
       (re_seq (re_star (is_digit I))
         (re_seq (re_opt (re_class is_point))
           (re_seq (re_plus (is_digit I)) (re_opt (re_exponent I)))))"

definition re_pattern :: "interp \<Rightarrow> str \<Rightarrow> (str \<times> str option) list" where
  \<comment> \<open>The whole pattern at the start of the text: group 1, \<open>\s*\<close>, then the
      optional group 2 \<open>([a-zA-Z]+)?\<close>. Each match gives the two groups.\<close>
  "re_pattern I s =
     concat (map (\<lambda>(g1, r1).
       concat (map (\<lambda>(ws, r2).
         map (\<lambda>(g2, r3). (g1, Some g2)) (re_plus is_alpha r2) @ [(g1, None)])
         (re_star is_space r1)))
       (re_number I s))"

fun re_search :: "interp \<Rightarrow> str \<Rightarrow> (str \<times> str option) option" where
  \<comment> \<open>\<open>re.search\<close>: the first match at the leftmost position that has one.\<close>
  "re_search I [] = (case re_pattern I [] of [] \<Rightarrow> None | m # ms \<Rightarrow> Some m)"
| "re_search I (c # cs) =
     (case re_pattern I (c # cs) of [] \<Rightarrow> re_search I cs | m # ms \<Rightarrow> Some m)"

definition UNIT :: "(str \<times> string) list" where
  \<comment> \<open>The table \<open>_UNIT\<close>, each factor as the literal of the source.\<close>
  "UNIT = [(ascii ''hz'', ''1.0''), (ascii ''khz'', ''1e3''), (ascii ''mhz'', ''1e6''),
           (ascii ''ghz'', ''1e9'')]"

definition parse_float :: "'f pyfloat \<Rightarrow> interp \<Rightarrow> str \<Rightarrow> exn + 'f option" where
  \<comment> \<open>\<open>Inr None\<close> is the return value \<open>None\<close>; \<open>Inl\<close> is an exception leaving the
      function (only \<open>float\<close> can raise).\<close>
  "parse_float F I text =
     (if text = [] then Inr None
      else case re_search I (strip text) of
        None \<Rightarrow> Inr None
      | Some (g1, g2) \<Rightarrow>
          (case float_of_str F g1 of
             None \<Rightarrow> Inl ValueError
           | Some val \<Rightarrow>
               (let unit = lower I (case g2 of None \<Rightarrow> [] | Some u \<Rightarrow> u) in
                case map_of UNIT unit of
                  Some mult \<Rightarrow> Inr (Some (float_mul F val (float_lit F mult)))
                | None \<Rightarrow> Inr (Some val))))"

section \<open>Polling and peak tracking (ui\_tk/app.py)\<close>

text \<open>
  Of the window only the fields that the polling logic reads and writes are kept;
  the widgets are left out. A parsed reading is a float that is never NaN, and
  such floats are linearly ordered by \<open><\<close>, so the type of readings is any linear
  order. The queue item \<open>("err", str(e))\<close> is represented by the exception itself.
\<close>

datatype 'f sample =
    Sample_ok 'f "'f option"  \<comment> \<open>\<open>("ok", val, self.peak_value)\<close>\<close>
  | Sample_err exn  \<comment> \<open>\<open>("err", str(e))\<close>\<close>
  | Sample_parse_error str  \<comment> \<open>\<open>("err", f"Parse error: {raw}")\<close>\<close>

record 'f App =
  app_meter :: Meter
  app_read_queue :: "'f sample list"
  app_stop_flag :: bool
  app_peak_value :: "'f option"

definition poll_iteration ::
  "('f::linorder) pyfloat \<Rightarrow> interp \<Rightarrow> env \<Rightarrow> 'f App \<Rightarrow> 'f App" where
  \<comment> \<open>One pass through the body of the \<open>while\<close> of \<open>_poll_loop\<close>.\<close>
  "poll_iteration F I ev app =
     (case Meter_query I ev (app_meter app) SCPI_QUERY_POWER of
        Inl e \<Rightarrow> app\<lparr>app_read_queue := app_read_queue app @ [Sample_err e]\<rparr>
      | Inr raw \<Rightarrow>
          (case parse_float F I raw of
             Inl e \<Rightarrow> app\<lparr>app_read_queue := app_read_queue app @ [Sample_err e]\<rparr>
           | Inr None \<Rightarrow>
               app\<lparr>app_read_queue := app_read_queue app @ [Sample_parse_error raw]\<rparr>
           | Inr (Some val) \<Rightarrow>
               (let app1 = (case app_peak_value app of
                              None \<Rightarrow> app\<lparr>app_peak_value := Some val\<rparr>
                            | Some p \<Rightarrow>
                                if val > p then app\<lparr>app_peak_value := Some val\<rparr> else app)
                in app1\<lparr>app_read_queue :=
                          app_read_queue app1 @ [Sample_ok val (app_peak_value app1)]\<rparr>)))"

fun poll_loop :: "('f::linorder) pyfloat \<Rightarrow> interp \<Rightarrow> env list \<Rightarrow> 'f App \<Rightarrow> 'f App" where
  \<comment> \<open>\<open>_poll_loop\<close> over the passes that happen: the list gives the world at each
      pass, and the flag is read before each.\<close>
  "poll_loop F I [] app = app"
| "poll_loop F I (ev # evs) app =
     (if app_stop_flag app then app else poll_loop F I evs (poll_iteration F I ev app))"





section \<open>Notions used in the statements\<close>

definition dec_val :: "interp \<Rightarrow> nat \<Rightarrow> str \<Rightarrow> nat" where
  \<comment> \<open>The number read from a run of digits, after the digits that gave \<open>acc\<close>.\<close>
  "dec_val I acc s = foldl (\<lambda>a c. 10 * a + digit_val I c) acc s"

definition open_error :: "env \<Rightarrow> str \<Rightarrow> str \<Rightarrow> exn option" where
  \<comment> \<open>The exception with which a backend fails to open an address; \<open>None\<close> when it opens it.\<close>
  "open_error ev resource be =
     (case visa_ResourceManager ev be of
        Some e \<Rightarrow> Some e
      | None \<Rightarrow> visa_open_resource ev be resource)"

definition tried_backends :: "event list \<Rightarrow> str list" where
  \<comment> \<open>The backends whose resource manager was asked for, in the order of the log.\<close>
  "tried_backends log =
     List.map_filter (\<lambda>e. case e of Ev_ResourceManager be \<Rightarrow> Some be | _ \<Rightarrow> None) log"

definition reported :: "env \<Rightarrow> str \<Rightarrow> str list" where
  \<comment> \<open>What one backend contributes to a scan: nothing when a call raises.\<close>
  "reported ev be =
     (case visa_ResourceManager ev be of
        Some e \<Rightarrow> []
      | None \<Rightarrow>
          (case visa_list_resources ev be (ascii ''USB?*::INSTR'') of
             Inl e \<Rightarrow> []
           | Inr res \<Rightarrow> res))"

fun first_seen :: "'a list \<Rightarrow> 'a list" where
  \<comment> \<open>Each element once, at its first place.\<close>
  "first_seen [] = []"
| "first_seen (x # xs) = x # first_seen (removeAll x xs)"

definition readings :: "'f pyfloat \<Rightarrow> interp \<Rightarrow> env list \<Rightarrow> Meter \<Rightarrow> 'f list" where
  \<comment> \<open>The readings that polling passes in the given worlds obtain and parse, in order;
      a pass whose query raises or whose answer does not parse gives none.\<close>
  "readings F I evs m =
     List.map_filter
       (\<lambda>ev. case Meter_query I ev m SCPI_QUERY_POWER of
                Inl e \<Rightarrow> None
              | Inr raw \<Rightarrow> (case parse_float F I raw of Inl e \<Rightarrow> None | Inr v \<Rightarrow> v))
       evs"

definition peak_of :: "('f::linorder) option \<Rightarrow> 'f list \<Rightarrow> 'f option" where
  \<comment> \<open>The maximum of an optional earlier peak and a list of readings.\<close>
  "peak_of pk vs =
     (case pk of
        None \<Rightarrow> (if vs = [] then None else Some (Max (set vs)))
      | Some p \<Rightarrow> Some (Max (insert p (set vs))))"

section \<open>Example worlds and states\<close>

definition I_default :: interp where
  \<comment> \<open>An interpreter with the default limit of 4300 digits whose database knows,
      above 127, the Arabic-Indic digits, and leaves the case of other texts alone.\<close>
  "I_default =
     \<lparr> uc_decimal = (\<lambda>c. if 0x660 \<le> c \<and> c \<le> 0x669 then Some (c - 0x660) else None),
       uc_upper = (\<lambda>s. s), uc_lower = (\<lambda>s. s), int_max_str_digits = 4300 \<rparr>"

definition ev_bench :: env where
  \<comment> \<open>A bench where the backend \<open>@py\<close> is missing, the system backend knows one
      instrument, and clearing the buffers fails.\<close>
  "ev_bench =
     \<lparr> HAS_VISA = True,
       visa_ResourceManager =
         (\<lambda>be. if be = ascii ''@py'' then Some (VisaError (ascii ''no pyvisa-py'')) else None),
       visa_open_resource =
         (\<lambda>be a. if a = ascii ''USB0::1::INSTR'' then None
                 else Some (VisaError (ascii ''not found''))),
       visa_clear = (\<lambda>be a. Some (VisaError (ascii ''clear failed''))),
       visa_query = (\<lambda>i c. Inr (ascii ''-45.000'')),
       visa_write = (\<lambda>i c. None),
       visa_list_resources = (\<lambda>be p. Inr [ascii ''USB0::1::INSTR'']),
       random_dbm = ascii ''-45.000'' \<rparr>"


definition vm_fresh :: VisaMeter where
  \<comment> \<open>The real driver as the facade creates it.\<close>
  "vm_fresh =
     \<lparr> vm_backend_order = DEFAULT_BACKENDS, vm_rm = None, vm_inst = None,
       vm_resource = None, vm_backend_in_use = None,
       vm_read_term = READ_TERM, vm_write_term = WRITE_TERM \<rparr>"

definition m_on_fake :: Meter where
  \<comment> \<open>The facade after a connect to the simulator.\<close>
  "m_on_fake =
     \<lparr> m_backend_order = DEFAULT_BACKENDS, m_backend_in_use = Some (ascii ''FAKE''),
       m_impl = Some (FakeImpl FakeMeter_init), m_resource = Some (ascii ''FAKE'') \<rparr>"



definition F_sym :: "str pyfloat" where
  \<comment> \<open>Floats kept as the text of the expression that computes them.\<close>
  "F_sym = \<lparr> float_of_str = (\<lambda>s. Some s), float_lit = (\<lambda>s. ascii s),
             float_mul = (\<lambda>a b. a @ ascii ''*'' @ b) \<rparr>"

section \<open>Properties\<close>

subsection \<open>Decimal text of integers\<close>

lemma str_nat_small: "n < 10 \<Longrightarrow> str_nat n = [digit_char n]"
  by (subst str_nat.simps) simp

lemma str_nat_large: "\<not> n < 10 \<Longrightarrow> str_nat n = str_nat (n div 10) @ [digit_char (n mod 10)]"
  by (subst str_nat.simps) simp

lemma digit_char_decimal: "d < 10 \<Longrightarrow> decimal I (digit_char d) = Some d"
  by (simp add: digit_char_def decimal_def)

lemma digit_char_plain:
  "d < 10 \<Longrightarrow> \<not> is_space (digit_char d) \<and> digit_char d < 128
     \<and> upper_char (digit_char d) = digit_char d
     \<and> digit_char d \<noteq> ord CHR ''-'' \<and> digit_char d \<noteq> ord CHR ''+''"
  by (auto simp: digit_char_def is_space_def upper_char_def)

lemma is_digit_digit_char: "d < 10 \<Longrightarrow> is_digit I (digit_char d)"
  by (simp add: is_digit_def digit_char_decimal)

lemma digit_val_digit_char: "d < 10 \<Longrightarrow> digit_val I (digit_char d) = d"
  by (simp add: digit_val_def digit_char_decimal)

lemma str_nat_chars: "c \<in> set (str_nat n) \<Longrightarrow> \<exists>d<10. c = digit_char d"
proof (induction n rule: str_nat.induct)
  case (1 n)
  show ?case
  proof (cases "n < 10")
    case True
    with 1 show ?thesis by (auto simp add: str_nat_small)
  next
    case False
    with 1(2) have "c \<in> set (str_nat (n div 10)) \<or> c = digit_char (n mod 10)"
      by (auto simp add: str_nat_large)
    then show ?thesis
    proof
      assume "c \<in> set (str_nat (n div 10))"
      with 1(1) False show ?thesis by simp
    next
      assume "c = digit_char (n mod 10)"
      moreover have "n mod 10 < 10" by simp
      ultimately show ?thesis by blast
    qed
  qed
qed

lemma str_nat_digits: "c \<in> set (str_nat n) \<Longrightarrow> is_digit I c"
  using str_nat_chars [of c n] by (auto simp: is_digit_digit_char)

lemma str_nat_nonempty: "str_nat n \<noteq> []"
  by (subst str_nat.simps) simp

lemma digits_from_dec_val:
  "(\<And>c. c \<in> set s \<Longrightarrow> is_digit I c) \<Longrightarrow> digits_from I acc s = Some (dec_val I acc s)"
  by (induction I acc s rule: digits_from.induct) (simp_all add: dec_val_def)

lemma dec_val_str_nat: "dec_val I 0 (str_nat n) = n"
proof (induction n rule: str_nat.induct)
  case (1 n)
  show ?case
  proof (cases "n < 10")
    case True
    then show ?thesis by (simp add: str_nat_small dec_val_def digit_val_digit_char)
  next
    case False
    then have "dec_val I 0 (str_nat (n div 10)) = n div 10" by (rule 1)
    with False show ?thesis
      by (simp add: str_nat_large dec_val_def digit_val_digit_char)
  qed
qed

lemma digits_str_nat: "digits I (str_nat n) = Some n"
proof -
  obtain c cs where s: "str_nat n = c # cs"
    using str_nat_nonempty [of n] by (cases "str_nat n") auto
  have d: "\<And>x. x \<in> set (c # cs) \<Longrightarrow> is_digit I x"
    using str_nat_digits [of _ n] by (simp add: s)
  have "digits I (c # cs) = Some (dec_val I (digit_val I c) cs)"
    using d by (simp add: digits_def digits_from_dec_val)
  also have "dec_val I (digit_val I c) cs = dec_val I 0 (c # cs)"
    by (simp add: dec_val_def)
  finally show ?thesis
    using dec_val_str_nat [of I n] by (simp add: s)
qed

lemma length_str_nat_le: "0 < k \<Longrightarrow> length (str_nat n) \<le> k \<longleftrightarrow> n < 10 ^ k"
proof (induction n arbitrary: k rule: str_nat.induct)
  case (1 n)
  show ?case
  proof (cases "n < 10")
    case True
    have "(10::nat) ^ 1 \<le> 10 ^ k" using 1(2) by (intro power_increasing) simp_all
    with True 1(2) show ?thesis by (simp add: str_nat_small)
  next
    case False
    show ?thesis
    proof (cases k)
      case 0
      with 1(2) show ?thesis by simp
    next
      case (Suc j)
      show ?thesis
      proof (cases "j = 0")
        case True
        with False Suc show ?thesis
          using str_nat_nonempty [of "n div 10"] by (simp add: str_nat_large Suc_le_eq)
      next
        case j: False
        then have "length (str_nat (n div 10)) \<le> j \<longleftrightarrow> n div 10 < 10 ^ j"
          using 1(1) [OF False, of j] by simp
        moreover have "n div 10 < 10 ^ j \<longleftrightarrow> n < 10 ^ Suc j"
          by (simp add: less_mult_imp_div_less div_less_iff_less_mult mult.commute)
        ultimately show ?thesis using False by (simp add: str_nat_large Suc)
      qed
    qed
  qed
qed

lemma str_nat_power: "str_nat (10 ^ k) = digit_char 1 # replicate k (digit_char 0)"
proof (induction k)
  case 0
  show ?case by (simp add: str_nat_small)
next
  case (Suc k)
  have "\<not> (10::nat) ^ Suc k < 10" by simp
  then have "str_nat (10 ^ Suc k) = str_nat (10 ^ k) @ [digit_char 0]"
    by (simp add: str_nat_large)
  then show ?case by (simp add: Suc replicate_append_same)
qed

lemma strip_id: "s \<noteq> [] \<Longrightarrow> \<not> is_space (hd s) \<Longrightarrow> \<not> is_space (last s) \<Longrightarrow> strip s = s"
proof -
  assume a: "s \<noteq> []" "\<not> is_space (hd s)" "\<not> is_space (last s)"
  then have 1: "dropWhile is_space s = s" by (cases s) auto
  from a have "rev s \<noteq> []" "\<not> is_space (hd (rev s))" by (simp_all add: hd_rev)
  then have 2: "dropWhile is_space (rev s) = rev s" by (cases "rev s") auto
  show ?thesis by (simp add: strip_def 1 2)
qed

lemma decimal_string_shape:
  "decimal_string n \<noteq> [] \<and> \<not> is_space (hd (decimal_string n))
   \<and> \<not> is_space (last (decimal_string n))
   \<and> (\<forall>c \<in> set (decimal_string n). \<not> is_space c) \<and> is_ascii (decimal_string n)
   \<and> map upper_char (decimal_string n) = decimal_string n"
proof -
  have ne: "\<And>k. str_nat k \<noteq> []" by (rule str_nat_nonempty)
  have dg: "\<And>k c. c \<in> set (str_nat k) \<Longrightarrow> \<not> is_space c \<and> c < 128 \<and> upper_char c = c"
    using str_nat_chars digit_char_plain by blast
  have minus: "\<not> is_space (ord CHR ''-'')" "upper_char (ord CHR ''-'') = ord CHR ''-''"
    by (simp_all add: is_space_def upper_char_def)
  have up: "\<And>k. map upper_char (str_nat k) = str_nat k"
    by (rule map_idI) (simp add: dg)
  have hd_d: "\<not> is_space (hd (str_nat k))" for k using dg [of "hd (str_nat k)" k] by (simp add: ne)
  have last_d: "\<not> is_space (last (str_nat k))" for k
    using dg [of "last (str_nat k)" k] by (simp add: ne)
  show ?thesis
    using ne dg minus up hd_d last_d
    by (auto simp: decimal_string_def is_ascii_def list_all_iff)
qed

lemma int_strip_decimal_string:
  "rev (dropWhile int_space (rev (dropWhile int_space (decimal_string n)))) = decimal_string n"
proof -
  let ?s = "decimal_string n"
  have a: "?s \<noteq> []" "\<not> int_space (hd ?s)" "\<not> int_space (last ?s)"
    using decimal_string_shape [of n] by (simp_all add: int_space_def)
  then have 1: "dropWhile int_space ?s = ?s" by (cases ?s) auto
  from a have "rev ?s \<noteq> []" "\<not> int_space (hd (rev ?s))" by (simp_all add: hd_rev)
  then have 2: "dropWhile int_space (rev ?s) = rev ?s" by (cases "rev ?s") auto
  show ?thesis by (simp add: 1 2)
qed

lemma filter_digits_str_nat: "filter (is_digit I) (str_nat k) = str_nat k"
  by (rule filter_True) (simp add: str_nat_digits)

lemma py_int_decimal_string:
  "py_int I (decimal_string n) =
     (if over_limit I (length (str_nat (nat \<bar>n\<bar>))) (length (str_nat (nat \<bar>n\<bar>)))
      then Inl ValueError else Inr n)"
proof (cases "n < 0")
  case True
  then have a: "nat \<bar>n\<bar> = nat (- n)" by simp
  from True show ?thesis
    unfolding py_int_def int_strip_decimal_string a
    by (simp add: decimal_string_def digits_str_nat filter_digits_str_nat)
next
  case False
  then have a: "nat \<bar>n\<bar> = nat n" by simp
  obtain c cs where s: "str_nat (nat n) = c # cs"
    using str_nat_nonempty [of "nat n"] by (cases "str_nat (nat n)") auto
  obtain d where "d < 10" "c = digit_char d"
    using str_nat_chars [of c "nat n"] by (auto simp: s)
  then have c: "c \<noteq> ord CHR ''-''" "c \<noteq> ord CHR ''+''" using digit_char_plain by auto
  have dg: "digits I (c # cs) = Some (nat n)" using digits_str_nat [of I "nat n"] by (simp add: s)
  have fl: "filter (is_digit I) (c # cs) = c # cs"
    using filter_digits_str_nat [of I "nat n"] by (simp only: s)
  have ds: "decimal_string n = c # cs" using False by (simp add: decimal_string_def s)
  from False c show ?thesis
    unfolding py_int_def int_strip_decimal_string a
    by (simp add: ds dg fl Let_def del: filter.simps) (simp add: s)
qed

lemma str_int_cases:
  "str_int I n = Inr d \<longleftrightarrow>
     d = decimal_string n
     \<and> \<not> over_limit I (length (decimal_string n)) (length (str_nat (nat \<bar>n\<bar>)))"
  by (auto simp: str_int_def Let_def)

lemma length_decimal_string: "length (str_nat (nat \<bar>n\<bar>)) \<le> length (decimal_string n)"
  by (cases "n < 0") (simp_all add: decimal_string_def)

lemma within_limit:
  assumes "int_max_str_digits I = 0 \<or> \<bar>n\<bar> < 10 ^ int_max_str_digits I"
  shows "\<not> over_limit I len (length (str_nat (nat \<bar>n\<bar>)))"
proof (cases "int_max_str_digits I = 0")
  case True
  then show ?thesis by (simp add: over_limit_def)
next
  case False
  with assms have "\<bar>n\<bar> < 10 ^ int_max_str_digits I" by simp
  then have "nat \<bar>n\<bar> < 10 ^ int_max_str_digits I"
    by (simp add: nat_less_iff)
  then have "length (str_nat (nat \<bar>n\<bar>)) \<le> int_max_str_digits I"
    using False by (simp add: length_str_nat_le)
  then show ?thesis by (simp add: over_limit_def)
qed

subsection \<open>Simulator: frequency and writes\<close>

lemma split_acc_word:
  "(\<And>c. c \<in> set w \<Longrightarrow> \<not> is_space c) \<Longrightarrow> cur @ w \<noteq> [] \<Longrightarrow> split_acc cur w = [cur @ w]"
  by (induction w arbitrary: cur) auto

lemma FakeMeter_query_freq:
  "FakeMeter_query I dbm fm (ascii ''SENS:FREQ?'') = str_int I (fm_freq_hz fm)"
  by (simp add: FakeMeter_query_def strip_def is_space_def upper_def upper_char_def
      startswith_def ascii_def is_ascii_def)

lemma set_freq_cmdu:
  assumes "p \<noteq> []" "\<not> is_space (hd p)" "is_ascii p" "map upper_char p = p"
  shows "upper I (strip (p @ decimal_string n)) = p @ decimal_string n"
proof -
  have "strip (p @ decimal_string n) = p @ decimal_string n"
    using assms decimal_string_shape [of n] by (intro strip_id) simp_all
  moreover have "upper I (p @ decimal_string n) = p @ decimal_string n"
    using assms decimal_string_shape [of n] by (simp add: upper_def is_ascii_def)
  ultimately show ?thesis by simp
qed

lemma FakeMeter_write_set:
  assumes p: "p = ascii ''SENS:FREQ'' \<or> p = ascii ''FREQ''"
  shows "FakeMeter_write I fm (p @ ord CHR '' '' # decimal_string n) =
     (if over_limit I (length (str_nat (nat \<bar>n\<bar>))) (length (str_nat (nat \<bar>n\<bar>)))
      then Inr fm else Inr (fm\<lparr>fm_freq_hz := n\<rparr>))"
proof -
  define cmd where "cmd = p @ ord CHR '' '' # decimal_string n"
  have "upper I (strip ((p @ ascii '' '') @ decimal_string n)) = (p @ ascii '' '') @ decimal_string n"
    using p by (intro set_freq_cmdu) (auto simp: is_space_def is_ascii_def upper_char_def ascii_def)
  then have cmdu: "upper I (strip cmd) = cmd" by (simp add: cmd_def ascii_def)
  have "split_acc [] (p @ ord CHR '' '' # decimal_string n) = p # split_acc [] (decimal_string n)"
    using p by (auto simp: is_space_def ascii_def)
  then have sp: "split cmd = [p, decimal_string n]"
    using decimal_string_shape [of n] by (simp add: split_def cmd_def split_acc_word)
  have sw: "\<not> startswith cmd (ascii ''SENS:POW:ZERO:IMM'')" "\<not> startswith cmd (ascii ''CAL:ZERO'')"
    "startswith cmd (ascii ''SENS:FREQ '') \<or> startswith cmd (ascii ''FREQ '')"
    using p by (auto simp: cmd_def startswith_def ascii_def)
  have "FakeMeter_write I fm cmd =
     (if over_limit I (length (str_nat (nat \<bar>n\<bar>))) (length (str_nat (nat \<bar>n\<bar>)))
      then Inr fm else Inr (fm\<lparr>fm_freq_hz := n\<rparr>))"
    using sw by (simp add: FakeMeter_write_def cmdu sp last_item_def py_int_decimal_string)
  then show ?thesis by (simp only: cmd_def)
qed

lemma FakeMeter_write_within:
  assumes "p = ascii ''SENS:FREQ'' \<or> p = ascii ''FREQ''"
    and "int_max_str_digits I = 0 \<or> \<bar>n\<bar> < 10 ^ int_max_str_digits I"
  shows "FakeMeter_write I fm (p @ ord CHR '' '' # decimal_string n) = Inr (fm\<lparr>fm_freq_hz := n\<rparr>)"
  using FakeMeter_write_set [OF assms(1), of I fm n] within_limit [OF assms(2)] by simp

lemma FakeMeter_write_beyond:
  assumes "p = ascii ''SENS:FREQ'' \<or> p = ascii ''FREQ''"
    and "640 \<le> int_max_str_digits I" "10 ^ int_max_str_digits I \<le> \<bar>n\<bar>"
  shows "FakeMeter_write I fm (p @ ord CHR '' '' # decimal_string n) = Inr fm"
proof -
  let ?k = "int_max_str_digits I"
  have k: "0 < ?k" using assms(2) by simp
  have "\<not> nat \<bar>n\<bar> < 10 ^ ?k" using assms(3) by (simp add: nat_less_iff)
  then have "?k < length (str_nat (nat \<bar>n\<bar>))"
    using length_str_nat_le [OF k, of "nat \<bar>n\<bar>"] by simp
  then have "over_limit I (length (str_nat (nat \<bar>n\<bar>))) (length (str_nat (nat \<bar>n\<bar>)))"
    using assms(2) by (simp add: over_limit_def)
  then show ?thesis using FakeMeter_write_set [OF assms(1), of I fm n] by simp
qed

lemma FakeMeter_query_init:
  "FakeMeter_query I dbm FakeMeter_init (ascii ''SENS:FREQ?'') = Inr (ascii ''1000000000'')"
proof -
  have d: "decimal_string 1000000000 = ascii ''1000000000''"
    by (simp add: decimal_string_def str_nat_small str_nat_large digit_char_def ascii_def)
  have "length (decimal_string 1000000000) = 10" unfolding d by (simp add: ascii_def)
  then have "str_int I 1000000000 = Inr (ascii ''1000000000'')"
    by (simp add: str_int_def Let_def over_limit_def d)
  then show ?thesis by (simp add: FakeMeter_query_freq FakeMeter_init_def)
qed

text \<open>
  Claim C6, within the interpreter's limit on conversions. A fresh simulator holds the
  frequency 1000000000, so its frequency query answers \<open>1000000000\<close>. For every
  integer \<open>n\<close> that the interpreter converts (any \<open>n\<close> when no limit is set, otherwise
  \<open>\<bar>n\<bar> < 10 ^ limit\<close>), \<open>str(n)\<close> is the decimal text of \<open>n\<close>, and from every
  simulator state writing \<open>SENS:FREQ n\<close> (or \<open>FREQ n\<close>, with \<open>n\<close> in decimal) returns
  normally and a following \<open>SENS:FREQ?\<close> answers the decimal text of \<open>n\<close>.
\<close>

theorem fake_freq_roundtrip:
  "fm_freq_hz FakeMeter_init = 1000000000
   \<and> FakeMeter_query I dbm FakeMeter_init (ascii ''SENS:FREQ?'') = Inr (ascii ''1000000000'')
   \<and> (int_max_str_digits I = 0 \<or> \<bar>n\<bar> < 10 ^ int_max_str_digits I \<longrightarrow>
        str_int I n = Inr (decimal_string n)
        \<and> (\<exists>fm'. FakeMeter_write I fm (ascii ''SENS:FREQ '' @ decimal_string n) = Inr fm'
              \<and> FakeMeter_query I dbm fm' (ascii ''SENS:FREQ?'') = Inr (decimal_string n))
        \<and> (\<exists>fm'. FakeMeter_write I fm (ascii ''FREQ '' @ decimal_string n) = Inr fm'
              \<and> FakeMeter_query I dbm fm' (ascii ''SENS:FREQ?'') = Inr (decimal_string n)))"
proof -
  have 2: "str_int I n = Inr (decimal_string n)
      \<and> FakeMeter_write I fm (ascii ''SENS:FREQ '' @ decimal_string n) = Inr (fm\<lparr>fm_freq_hz := n\<rparr>)
      \<and> FakeMeter_write I fm (ascii ''FREQ '' @ decimal_string n) = Inr (fm\<lparr>fm_freq_hz := n\<rparr>)"
    if w: "int_max_str_digits I = 0 \<or> \<bar>n\<bar> < 10 ^ int_max_str_digits I"
  proof -
    have a: "ascii ''SENS:FREQ '' @ decimal_string n = ascii ''SENS:FREQ'' @ ord CHR '' '' # decimal_string n"
      "ascii ''FREQ '' @ decimal_string n = ascii ''FREQ'' @ ord CHR '' '' # decimal_string n"
      by (simp_all add: ascii_def)
    show ?thesis
      unfolding a
      using FakeMeter_write_within [OF _ w, of "ascii ''SENS:FREQ''" fm]
        FakeMeter_write_within [OF _ w, of "ascii ''FREQ''" fm] within_limit [OF w]
      by (simp add: str_int_def)
  qed
  have 3: "FakeMeter_query I dbm (fm\<lparr>fm_freq_hz := n\<rparr>) (ascii ''SENS:FREQ?'') = str_int I n"
    by (simp add: FakeMeter_query_freq)
  have 1: "fm_freq_hz FakeMeter_init = 1000000000" by (simp add: FakeMeter_init_def)
  show ?thesis
    using 1 2 3 by (auto simp add: FakeMeter_query_init)
qed

lemma small_within_default:
  "\<bar>n\<bar> < 10 ^ 10 \<Longrightarrow> int_max_str_digits I_default = 0 \<or> \<bar>n\<bar> < (10::int) ^ int_max_str_digits I_default"
proof -
  assume a: "\<bar>n\<bar> < 10 ^ 10"
  have k: "int_max_str_digits I_default = 4300" by (simp add: I_default_def)
  have "(10::int) ^ 10 \<le> 10 ^ 4300" by (rule power_increasing) simp_all
  with a have "\<bar>n\<bar> < (10::int) ^ 4300" by (rule less_le_trans)
  then show ?thesis unfolding k by (rule disjI2)
qed

theorem fake_freq_roundtrip_witness:
  "(\<exists>fm'. FakeMeter_write I_default FakeMeter_init (ascii ''SENS:FREQ 2400000000'') = Inr fm'
       \<and> FakeMeter_query I_default (ascii ''-45.000'') fm' (ascii ''SENS:FREQ?'')
           = Inr (ascii ''2400000000''))
   \<and> (\<exists>fm'. FakeMeter_write I_default FakeMeter_init (ascii ''FREQ -5'') = Inr fm'
       \<and> FakeMeter_query I_default (ascii ''-45.000'') fm' (ascii ''SENS:FREQ?'') = Inr (ascii ''-5''))"
proof -
  have h: "int_max_str_digits I_default = 0 \<or> \<bar>2400000000\<bar> < (10::int) ^ int_max_str_digits I_default"
    "int_max_str_digits I_default = 0 \<or> \<bar>- 5\<bar> < (10::int) ^ int_max_str_digits I_default"
    by (rule small_within_default, simp)+
  have d: "decimal_string 2400000000 = ascii ''2400000000''" "decimal_string (- 5) = ascii ''-5''"
    by (simp_all add: decimal_string_def str_nat_small str_nat_large digit_char_def ascii_def)
  have e: "ascii ''SENS:FREQ '' @ ascii ''2400000000'' = ascii ''SENS:FREQ 2400000000''"
    "ascii ''FREQ '' @ ascii ''-5'' = ascii ''FREQ -5''"
    by (simp_all add: ascii_def)
  from fake_freq_roundtrip [where I = I_default and n = 2400000000 and fm = FakeMeter_init
        and dbm = "ascii ''-45.000''"] h(1)
  have 1: "\<exists>fm'. FakeMeter_write I_default FakeMeter_init (ascii ''SENS:FREQ '' @ decimal_string 2400000000) = Inr fm'
       \<and> FakeMeter_query I_default (ascii ''-45.000'') fm' (ascii ''SENS:FREQ?'')
           = Inr (decimal_string 2400000000)"
    by blast
  from fake_freq_roundtrip [where I = I_default and n = "- 5" and fm = FakeMeter_init
        and dbm = "ascii ''-45.000''"] h(2)
  have 2: "\<exists>fm'. FakeMeter_write I_default FakeMeter_init (ascii ''FREQ '' @ decimal_string (- 5)) = Inr fm'
       \<and> FakeMeter_query I_default (ascii ''-45.000'') fm' (ascii ''SENS:FREQ?'')
           = Inr (decimal_string (- 5))"
    by blast
  from 1 2 show ?thesis unfolding d e by (rule conjI)
qed

lemma length_decimal_string_power: "length (decimal_string (10 ^ k)) = Suc k"
proof -
  have n: "nat ((10::int) ^ k) = 10 ^ k" by (simp add: nat_power_eq)
  have "decimal_string (10 ^ k) = str_nat (nat (10 ^ k))" by (simp add: decimal_string_def)
  then show ?thesis unfolding n by (simp add: str_nat_power)
qed

lemma set_freq_text: "ascii ''SENS:FREQ '' @ d = ascii ''SENS:FREQ'' @ ord CHR '' '' # d"
  by (simp add: ascii_def)

text \<open>
  Beyond the limit the round trip of C6 fails: with the default limit of 4300 digits,
  the frequency-set command for \<open>10 ^ 4300\<close> (a text of 4301 digits) returns normally
  and leaves the frequency of a fresh simulator at 1000000000, which the query answers.
\<close>

theorem fake_freq_over_limit:
  "int_max_str_digits I_default = 4300
   \<and> FakeMeter_write I_default FakeMeter_init (ascii ''SENS:FREQ '' @ decimal_string (10 ^ 4300))
       = Inr FakeMeter_init
   \<and> FakeMeter_query I_default (ascii ''-45.000'') FakeMeter_init (ascii ''SENS:FREQ?'')
       = Inr (ascii ''1000000000'')
   \<and> length (decimal_string (10 ^ 4300)) = 4301"
proof -
  have k: "int_max_str_digits I_default = 4300" by (simp add: I_default_def)
  have "(10::int) ^ 4300 \<le> \<bar>10 ^ 4300\<bar>" by (rule abs_ge_self)
  then have le: "(10::int) ^ int_max_str_digits I_default \<le> \<bar>10 ^ 4300\<bar>" by (simp only: k)
  have p: "ascii ''SENS:FREQ'' = ascii ''SENS:FREQ'' \<or> ascii ''SENS:FREQ'' = ascii ''FREQ''"
    by (rule disjI1) (rule refl)
  have m: "640 \<le> int_max_str_digits I_default" by (simp add: k)
  have 1: "FakeMeter_write I_default FakeMeter_init
      (ascii ''SENS:FREQ '' @ decimal_string (10 ^ 4300)) = Inr FakeMeter_init"
    unfolding set_freq_text by (rule FakeMeter_write_beyond [OF p m le])
  have "length (decimal_string (10 ^ 4300)) = Suc 4300" by (rule length_decimal_string_power)
  also have "Suc 4300 = 4301" by simp
  finally have 2: "length (decimal_string (10 ^ 4300)) = 4301" .
  have 3: "FakeMeter_query I_default (ascii ''-45.000'') FakeMeter_init (ascii ''SENS:FREQ?'')
       = Inr (ascii ''1000000000'')"
    by (rule FakeMeter_query_init)
  show ?thesis by (intro conjI k 1 2 3)
qed

text \<open>
  Claim C9. \<open>FakeMeter.write\<close> never raises. The command is read as the code reads
  it, stripped and in upper case. The zero command and its synonym leave the simulator
  as it is; so does a frequency-set command whose last token \<open>int\<close> rejects; so does
  every command that is no frequency-set command. Whatever the command, no field other
  than the stored frequency changes.
\<close>

theorem fake_write_frame:
  "(startswith (upper I (strip cmd)) (ascii ''SENS:POW:ZERO:IMM'')
      \<or> startswith (upper I (strip cmd)) (ascii ''CAL:ZERO'')
      \<longrightarrow> FakeMeter_write I fm cmd = Inr fm)
   \<and> ((startswith (upper I (strip cmd)) (ascii ''SENS:FREQ '')
          \<or> startswith (upper I (strip cmd)) (ascii ''FREQ ''))
        \<and> py_int I (last (split (upper I (strip cmd)))) = Inl e
      \<longrightarrow> FakeMeter_write I fm cmd = Inr fm)
   \<and> (\<not> startswith (upper I (strip cmd)) (ascii ''SENS:FREQ '')
        \<and> \<not> startswith (upper I (strip cmd)) (ascii ''FREQ '')
      \<longrightarrow> FakeMeter_write I fm cmd = Inr fm)
   \<and> (\<exists>fm'. FakeMeter_write I fm cmd = Inr fm' \<and> fm' = fm\<lparr>fm_freq_hz := fm_freq_hz fm'\<rparr>)"
  by (auto simp: FakeMeter_write_def Let_def last_item_def split: sum.splits)

theorem fake_write_frame_witness:
  "FakeMeter_write I_default FakeMeter_init (ascii ''sens:pow:zero:imm'') = Inr FakeMeter_init
   \<and> FakeMeter_write I_default FakeMeter_init (ascii ''cal:zero'') = Inr FakeMeter_init
   \<and> FakeMeter_write I_default FakeMeter_init (ascii ''SENS:FREQ 2.4GHz'') = Inr FakeMeter_init
   \<and> FakeMeter_write I_default FakeMeter_init (ascii ''*RST'') = Inr FakeMeter_init"
proof -
  have u: "upper I_default (strip (ascii ''sens:pow:zero:imm'')) = ascii ''SENS:POW:ZERO:IMM''"
     "upper I_default (strip (ascii ''cal:zero'')) = ascii ''CAL:ZERO''"
     "upper I_default (strip (ascii ''SENS:FREQ 2.4GHz'')) = ascii ''SENS:FREQ 2.4GHZ''"
     "upper I_default (strip (ascii ''*RST'')) = ascii ''*RST''"
    by (simp_all add: strip_def is_space_def upper_def upper_char_def ascii_def is_ascii_def)
  have p: "py_int I_default (last (split (ascii ''SENS:FREQ 2.4GHZ''))) = Inl ValueError"
    by (simp add: split_def is_space_def py_int_def int_space_def digits_def is_digit_def
        decimal_def digit_val_def ascii_def)
  show ?thesis
    using fake_write_frame [where I = I_default and cmd = "ascii ''sens:pow:zero:imm''"
        and fm = FakeMeter_init]
      fake_write_frame [where I = I_default and cmd = "ascii ''cal:zero''" and fm = FakeMeter_init]
      fake_write_frame [where I = I_default and cmd = "ascii ''SENS:FREQ 2.4GHz''"
        and e = ValueError and fm = FakeMeter_init]
      fake_write_frame [where I = I_default and cmd = "ascii ''*RST''" and fm = FakeMeter_init]
    by (simp add: u p) (simp add: startswith_def ascii_def)
qed

lemma fake_write_unicode_blank:
  "FakeMeter_write I fm (0xA0 # ascii ''SENS:FREQ 7'') = Inr (fm\<lparr>fm_freq_hz := 7\<rparr>)
   \<and> FakeMeter_write I_default fm (ascii ''SENS:FREQ x'' @ 0xA0 # ascii ''7'')
       = Inr (fm\<lparr>fm_freq_hz := 7\<rparr>)
   \<and> FakeMeter_write I_default fm (ascii ''FREQ '' @ [0x663, 0x664]) = Inr (fm\<lparr>fm_freq_hz := 34\<rparr>)"
  by (simp add: FakeMeter_write_def strip_def is_space_def upper_def upper_char_def ascii_def
      is_ascii_def startswith_def split_def last_item_def py_int_def int_space_def digits_def
      is_digit_def decimal_def digit_val_def over_limit_def I_default_def)

subsection \<open>Real driver: the order of the backends\<close>

lemma tried_backends_append [simp]:
  "tried_backends (xs @ ys) = tried_backends xs @ tried_backends ys"
  by (simp add: tried_backends_def map_filter_def)

lemma tried_backends_simps [simp]:
  "tried_backends [] = []"
  "tried_backends (Ev_ResourceManager be # xs) = be # tried_backends xs"
  "tried_backends (Ev_open_resource be r # xs) = tried_backends xs"
  "tried_backends (Ev_clear be r # xs) = tried_backends xs"
  "tried_backends (Ev_inst_close be r # xs) = tried_backends xs"
  "tried_backends (Ev_FakeMeter_connect r # xs) = tried_backends xs"
  "tried_backends (Ev_FakeMeter_close # xs) = tried_backends xs"
  by (simp_all add: tried_backends_def map_filter_def)

lemma try_backends_all_fail:
  "(\<And>b. b \<in> set bes \<Longrightarrow> open_error ev resource b \<noteq> None) \<Longrightarrow>
   \<exists>vm' log'. try_backends ev resource t bes last_err vm log =
       (vm', log',
        Some (if bes = [] then (case last_err of Some e \<Rightarrow> e | None \<Rightarrow> RuntimeError msg_open_failed)
              else the (open_error ev resource (last bes))))
     \<and> tried_backends log' = tried_backends log @ bes
     \<and> (vm_inst vm = None \<or> bes \<noteq> [] \<longrightarrow> vm_inst vm' = None)"
proof (induction bes arbitrary: last_err vm log)
  case Nil
  then show ?case by simp
next
  case (Cons be bes)
  have be: "open_error ev resource be \<noteq> None" using Cons.prems by simp
  have rest: "\<And>b. b \<in> set bes \<Longrightarrow> open_error ev resource b \<noteq> None" using Cons.prems by simp
  show ?case
  proof (cases "visa_ResourceManager ev be")
    case (Some e)
    from Cons.IH [OF rest, of "Some e" "vm\<lparr>vm_rm := None, vm_inst := None\<rparr>" "log @ [Ev_ResourceManager be]"]
    show ?thesis using Some by (auto simp: open_error_def)
  next
    case None
    with be obtain e where e: "visa_open_resource ev be resource = Some e"
      by (auto simp: open_error_def)
    from Cons.IH [OF rest, of "Some e" "vm\<lparr>vm_rm := None, vm_inst := None\<rparr>"
        "log @ [Ev_ResourceManager be, Ev_open_resource be resource]"]
    show ?thesis using None e by (auto simp: open_error_def)
  qed
qed

lemma try_backends_first_ok:
  "(\<And>b. b \<in> set pre \<Longrightarrow> open_error ev resource b \<noteq> None) \<Longrightarrow>
   open_error ev resource be = None \<Longrightarrow>
   \<exists>vm' log'. try_backends ev resource t (pre @ be # post) last_err vm log = (vm', log', None)
     \<and> tried_backends log' = tried_backends log @ pre @ [be]
     \<and> vm_backend_in_use vm' = Some (if be = [] then (ascii ''default'') else be)
     \<and> vm_resource vm' = Some resource
     \<and> vm_rm vm' = Some be
     \<and> vm_inst vm' = Some \<lparr> inst_backend = be, inst_address = resource, inst_timeout = t,
           inst_read_termination = vm_read_term vm, inst_write_termination = vm_write_term vm \<rparr>"
proof (induction pre arbitrary: last_err vm log)
  case Nil
  then show ?case by (auto simp: open_error_def split: option.splits)
next
  case (Cons b pre)
  have b: "open_error ev resource b \<noteq> None" using Cons.prems by simp
  have rest: "\<And>x. x \<in> set pre \<Longrightarrow> open_error ev resource x \<noteq> None" using Cons.prems by simp
  note ih = Cons.IH [OF rest Cons.prems(2)]
  show ?case
  proof (cases "visa_ResourceManager ev b")
    case (Some e)
    from ih [of "Some e" "vm\<lparr>vm_rm := None, vm_inst := None\<rparr>" "log @ [Ev_ResourceManager b]"]
    show ?thesis using Some by auto
  next
    case None
    with b obtain e where e: "visa_open_resource ev b resource = Some e"
      by (auto simp: open_error_def)
    from ih [of "Some e" "vm\<lparr>vm_rm := None, vm_inst := None\<rparr>"
        "log @ [Ev_ResourceManager b, Ev_open_resource b resource]"]
    show ?thesis using None e by auto
  qed
qed

lemma try_backends_clear_irrelevant:
  "try_backends (ev\<lparr>visa_clear := f\<rparr>) resource t bes last_err vm log =
   try_backends ev resource t bes last_err vm log"
  by (induction bes arbitrary: last_err vm log) (auto split: option.splits)

text \<open>
  Claim C2. \<open>VisaMeter.connect\<close> on a driver not yet connected to the address: when
  the backends before \<open>be\<close> in the configured list fail to open the address and \<open>be\<close>
  opens it, the connect returns normally with \<open>be\<close> in use, and the backends tried are
  exactly those up to \<open>be\<close>, in order; when every backend fails, the connect raises the
  error of the last one, and on an empty list a RuntimeError with a non-empty message.
  The outcome of \<open>inst.clear()\<close> has no influence on the result. A backend opens the
  address when both its resource manager and \<open>open_resource\<close> return.
\<close>

theorem visa_connect_backend_order:
  assumes "\<not> VisaMeter_is_connected_to vm resource"
  shows
  "(vm_backend_order vm = pre @ be # post
      \<and> (\<forall>b \<in> set pre. open_error ev resource b \<noteq> None)
      \<and> open_error ev resource be = None
    \<longrightarrow> (\<exists>vm' log'. VisaMeter_connect ev vm resource t [] = (vm', log', None)
           \<and> tried_backends log' = pre @ [be]
           \<and> vm_backend_in_use vm' = Some (if be = [] then (ascii ''default'') else be)
           \<and> VisaMeter_is_connected_to vm' resource))
   \<and> ((\<forall>b \<in> set (vm_backend_order vm). open_error ev resource b \<noteq> None)
    \<longrightarrow> (\<exists>vm' log'. VisaMeter_connect ev vm resource t [] =
             (vm', log',
              Some (if vm_backend_order vm = [] then RuntimeError msg_open_failed
                    else the (open_error ev resource (last (vm_backend_order vm)))))
           \<and> tried_backends log' = vm_backend_order vm
           \<and> \<not> VisaMeter_is_connected_to vm' resource))
   \<and> msg_open_failed \<noteq> []
   \<and> VisaMeter_connect (ev\<lparr>visa_clear := f\<rparr>) vm resource t [] = VisaMeter_connect ev vm resource t []"
proof -
  obtain vm1 log1 where c: "VisaMeter_close_unlocked vm [] = (vm1, log1)"
    by (cases "VisaMeter_close_unlocked vm []")
  then have vm1: "vm_backend_order vm1 = vm_backend_order vm" "vm_inst vm1 = None"
    and log1: "tried_backends log1 = []"
    by (auto simp: VisaMeter_close_unlocked_def split: option.splits)
  have conn: "VisaMeter_connect e vm resource t [] =
      try_backends e resource t (vm_backend_order vm) None vm1 log1" for e
    using assms c vm1 by (simp add: VisaMeter_connect_def)
  have A: "\<exists>vm' log'. VisaMeter_connect ev vm resource t [] = (vm', log', None)
           \<and> tried_backends log' = pre @ [be]
           \<and> vm_backend_in_use vm' = Some (if be = [] then (ascii ''default'') else be)
           \<and> VisaMeter_is_connected_to vm' resource"
    if h: "vm_backend_order vm = pre @ be # post"
      "\<forall>b \<in> set pre. open_error ev resource b \<noteq> None" "open_error ev resource be = None"
    using try_backends_first_ok [of pre ev resource be t post None vm1 log1] h log1
    by (auto simp: conn VisaMeter_is_connected_to_def)
  have B: "\<exists>vm' log'. VisaMeter_connect ev vm resource t [] =
             (vm', log',
              Some (if vm_backend_order vm = [] then RuntimeError msg_open_failed
                    else the (open_error ev resource (last (vm_backend_order vm)))))
           \<and> tried_backends log' = vm_backend_order vm
           \<and> \<not> VisaMeter_is_connected_to vm' resource"
    if h: "\<forall>b \<in> set (vm_backend_order vm). open_error ev resource b \<noteq> None"
    using try_backends_all_fail [of "vm_backend_order vm" ev resource t None vm1 log1] h log1 vm1
    by (auto simp: conn VisaMeter_is_connected_to_def)
  have C: "msg_open_failed \<noteq> []" by (simp add: msg_open_failed_def)
  have D: "VisaMeter_connect (ev\<lparr>visa_clear := f\<rparr>) vm resource t [] =
      VisaMeter_connect ev vm resource t []"
    by (simp add: conn try_backends_clear_irrelevant)
  from A B C D show ?thesis by blast
qed

theorem visa_connect_backend_order_witness:
  "(\<exists>vm' log'. VisaMeter_connect ev_bench vm_fresh (ascii ''USB0::1::INSTR'') 5000 [] = (vm', log', None)
      \<and> tried_backends log' = [(ascii ''@py''), []]
      \<and> vm_backend_in_use vm' = Some (ascii ''default'')
      \<and> VisaMeter_is_connected_to vm' (ascii ''USB0::1::INSTR''))
   \<and> (\<exists>vm' log'. VisaMeter_connect ev_bench vm_fresh (ascii ''USB0::2::INSTR'') 5000 [] =
          (vm', log', Some (VisaError (ascii ''not found'')))
      \<and> tried_backends log' = [(ascii ''@py''), []]
      \<and> \<not> VisaMeter_is_connected_to vm' (ascii ''USB0::2::INSTR''))
   \<and> (\<exists>vm' log'. VisaMeter_connect ev_bench (vm_fresh\<lparr>vm_backend_order := []\<rparr>) (ascii ''USB0::1::INSTR'') 5000 [] =
          (vm', log', Some (RuntimeError msg_open_failed))
      \<and> tried_backends log' = [])"
proof -
  have n: "\<not> VisaMeter_is_connected_to vm_fresh r"
    "\<not> VisaMeter_is_connected_to (vm_fresh\<lparr>vm_backend_order := []\<rparr>) r" for r
    by (simp_all add: VisaMeter_is_connected_to_def vm_fresh_def)
  have d: "ascii ''@py'' \<noteq> []" "[] \<noteq> ascii ''@py''"
    "ascii ''USB0::2::INSTR'' \<noteq> ascii ''USB0::1::INSTR''"
    by (simp_all add: ascii_def)
  have e: "open_error ev_bench (ascii ''USB0::1::INSTR'') (ascii ''@py'') = Some (VisaError (ascii ''no pyvisa-py''))"
    "open_error ev_bench (ascii ''USB0::1::INSTR'') [] = None"
    "open_error ev_bench (ascii ''USB0::2::INSTR'') (ascii ''@py'') = Some (VisaError (ascii ''no pyvisa-py''))"
    "open_error ev_bench (ascii ''USB0::2::INSTR'') [] = Some (VisaError (ascii ''not found''))"
    by (simp_all add: open_error_def ev_bench_def d)
  have b: "vm_backend_order vm_fresh = [ascii ''@py''] @ [] # []"
    "vm_backend_order (vm_fresh\<lparr>vm_backend_order := []\<rparr>) = []"
    by (simp_all add: vm_fresh_def DEFAULT_BACKENDS_def)
  show ?thesis
    using visa_connect_backend_order [OF n(1), where resource = "ascii ''USB0::1::INSTR''"
        and pre = "[ascii ''@py'']" and be = "[]" and post = "[]" and ev = ev_bench and t = 5000]
      visa_connect_backend_order [OF n(1), where resource = "ascii ''USB0::2::INSTR''"
        and ev = ev_bench and t = 5000]
      visa_connect_backend_order [OF n(2), where resource = "ascii ''USB0::1::INSTR''"
        and ev = ev_bench and t = 5000]
    by (simp add: e b d) blast
qed

subsection \<open>Facade: failed connect, no driver, connecting twice\<close>

lemma upper_FAKE: "upper I (ascii ''FAKE'') = ascii ''FAKE''"
  by (simp add: upper_def upper_char_def ascii_def is_ascii_def)

lemma FakeMeter_connect_FAKE: "FakeMeter_connect I fm (ascii ''FAKE'') = None"
  by (simp add: FakeMeter_connect_def upper_FAKE)

lemma Meter_close_fields:
  "Meter_close m log = (m1, log1) \<Longrightarrow>
   m_impl m1 = None \<and> m_resource m1 = None \<and> m_backend_in_use m1 = None
   \<and> m_backend_order m1 = m_backend_order m"
  by (auto simp: Meter_close_def)

text \<open>
  Claim C10. When \<open>Meter.connect\<close> raises, the facade is left without a driver:
  resource and backend in use are unset, it is connected to no address, and query and
  write raise the "no connection" error. Whatever was connected before is gone.
\<close>

theorem meter_failed_connect_disconnected:
  assumes "Meter_connect I ev m resource t log = (m', log', Some e)"
  shows "m_impl m' = None \<and> m_resource m' = None \<and> m_backend_in_use m' = None
    \<and> (\<forall>a. \<not> Meter_is_connected_to m' a)
    \<and> Meter_query I' ev' m' cmd = Inl (RuntimeError msg_no_connection)
    \<and> Meter_write I' ev' m' cmd = Inl (RuntimeError msg_no_connection)"
proof -
  obtain m1 log1 where c: "Meter_close m log = (m1, log1)"
    by (cases "Meter_close m log")
  note f = Meter_close_fields [OF c]
  have "m' = m1"
    using assms c
    by (auto simp: Meter_connect_def Let_def FakeMeter_connect_FAKE
        split: if_splits sum.splits prod.splits option.splits)
  with f show ?thesis
    by (simp add: Meter_is_connected_to_def Meter_query_def Meter_write_def)
qed

theorem meter_failed_connect_disconnected_witness:
  "(\<exists>m' log'. Meter_connect I_default ev_bench m_on_fake (ascii ''USB0::2::INSTR'') 5000 [] =
        (m', log', Some (VisaError (ascii ''not found'')))
      \<and> m_impl m' = None \<and> m_resource m' = None \<and> m_backend_in_use m' = None
      \<and> (\<forall>a. \<not> Meter_is_connected_to m' a)
      \<and> Meter_query I_default ev_bench m' SCPI_QUERY_POWER = Inl (RuntimeError msg_no_connection)
      \<and> Meter_write I_default ev_bench m' SCPI_ZERO = Inl (RuntimeError msg_no_connection))
   \<and> (\<exists>m' log'. Meter_connect I_default (ev_bench\<lparr>HAS_VISA := False\<rparr>) m_on_fake
          (ascii ''USB0::1::INSTR'') 5000 [] =
        (m', log', Some (RuntimeError msg_no_pyvisa))
      \<and> m_impl m' = None \<and> m_resource m' = None \<and> m_backend_in_use m' = None
      \<and> (\<forall>a. \<not> Meter_is_connected_to m' a)
      \<and> Meter_query I_default ev_bench m' SCPI_QUERY_POWER = Inl (RuntimeError msg_no_connection)
      \<and> Meter_write I_default ev_bench m' SCPI_ZERO = Inl (RuntimeError msg_no_connection))"
proof -
  have u: "upper I_default (strip (ascii ''USB0::2::INSTR'')) \<noteq> ascii ''FAKE''"
    "upper I_default (strip (ascii ''USB0::1::INSTR'')) \<noteq> ascii ''FAKE''"
    by (simp_all add: strip_def is_space_def upper_def upper_char_def ascii_def is_ascii_def)
  have d: "ascii ''FAKE'' \<noteq> ascii ''USB0::2::INSTR''" "ascii ''FAKE'' \<noteq> ascii ''USB0::1::INSTR''"
    "ascii ''@py'' \<noteq> []" "ascii ''USB0::2::INSTR'' \<noteq> ascii ''USB0::1::INSTR''"
    by (simp_all add: ascii_def)
  obtain m1 l1 where 1: "Meter_connect I_default ev_bench m_on_fake (ascii ''USB0::2::INSTR'') 5000 [] =
        (m1, l1, Some (VisaError (ascii ''not found'')))"
    using u d by (simp add: Meter_connect_def m_on_fake_def Meter_is_connected_to_def
        Meter_close_def VisaMeter_init_def VisaMeter_connect_def VisaMeter_is_connected_to_def
        VisaMeter_close_unlocked_def DEFAULT_BACKENDS_def ev_bench_def)
  obtain m2 l2 where 2:
    "Meter_connect I_default (ev_bench\<lparr>HAS_VISA := False\<rparr>) m_on_fake (ascii ''USB0::1::INSTR'')
        5000 [] = (m2, l2, Some (RuntimeError msg_no_pyvisa))"
    using u d by (simp add: Meter_connect_def m_on_fake_def Meter_is_connected_to_def
        Meter_close_def VisaMeter_init_def)
  show ?thesis
    using meter_failed_connect_disconnected [OF 1, of I_default ev_bench]
      meter_failed_connect_disconnected [OF 2, of I_default ev_bench]
    by (simp add: 1 2)
qed

text \<open>
  Claim C7. With no active driver, \<open>Meter.query\<close> and \<open>Meter.write\<close> raise the
  "no connection" error for every command, while \<open>Meter.idn\<close> returns a fixed non-empty
  text. The real driver's \<open>idn\<close> returns the empty text when its identification query
  raises, and the answer of the instrument otherwise.
\<close>

theorem meter_no_driver:
  assumes "m_impl m = None"
  shows "Meter_query I ev m cmd = Inl (RuntimeError msg_no_connection)
    \<and> Meter_write I ev m cmd = Inl (RuntimeError msg_no_connection)
    \<and> Meter_idn ev m = msg_fake_idn
    \<and> msg_fake_idn \<noteq> []
    \<and> (case VisaMeter_query ev vm (ascii ''*IDN?'') of
          Inl e \<Rightarrow> VisaMeter_idn ev vm = []
        | Inr s \<Rightarrow> VisaMeter_idn ev vm = s)"
  using assms
  by (simp add: Meter_query_def Meter_write_def Meter_idn_def msg_fake_idn_def VisaMeter_idn_def
      split: sum.splits)

theorem meter_no_driver_witness:
  "Meter_query I_default ev_bench (Meter_init DEFAULT_BACKENDS) SCPI_QUERY_POWER =
      Inl (RuntimeError msg_no_connection)
   \<and> Meter_write I_default ev_bench (Meter_init DEFAULT_BACKENDS) SCPI_ZERO =
      Inl (RuntimeError msg_no_connection)
   \<and> Meter_idn ev_bench (Meter_init DEFAULT_BACKENDS) = msg_fake_idn
   \<and> msg_fake_idn \<noteq> []
   \<and> VisaMeter_idn ev_bench vm_fresh = []"
proof -
  have i: "m_impl (Meter_init DEFAULT_BACKENDS) = None" by (simp add: Meter_init_def)
  have q: "VisaMeter_query ev_bench vm_fresh (ascii ''*IDN?'') = Inl (RuntimeError msg_no_connection)"
    by (simp add: VisaMeter_query_def vm_fresh_def)
  show ?thesis
    using meter_no_driver [OF i, of I_default ev_bench SCPI_QUERY_POWER vm_fresh]
      meter_no_driver [OF i, of I_default ev_bench SCPI_ZERO vm_fresh]
    by (simp add: q)
qed

lemma Meter_connect_same_resource:
  "Meter_is_connected_to m resource \<Longrightarrow> Meter_connect I ev m resource t log = (m, log, None)"
  by (simp add: Meter_connect_def)

lemma Meter_connect_twice_exact:
  assumes "Meter_connect I ev m resource t log = (m1, log1, None)"
    and "upper I (strip resource) = ascii ''FAKE'' \<longrightarrow> resource = ascii ''FAKE''"
  shows "Meter_connect I' ev' m1 resource t' log1 = (m1, log1, None)"
proof -
  have "Meter_is_connected_to m1 resource"
    using assms
    by (auto simp: Meter_connect_def Let_def Meter_is_connected_to_def
        FakeMeter_connect_FAKE split: if_splits sum.splits prod.splits option.splits)
  then show ?thesis by (rule Meter_connect_same_resource)
qed

text \<open>
  Claim C1, on the address \<open>fake\<close>. The first connect opens the simulator. After a
  frequency of 5 is stored in it, the second connect with the same address closes the
  simulator and opens a new one (a second open in the log), and the stored frequency is
  back at its initial value.
\<close>

theorem meter_connect_fake_lowercase_twice:
  "Meter_connect I ev (Meter_init DEFAULT_BACKENDS) (ascii ''fake'') 5000 [] =
       (m_on_fake, [Ev_FakeMeter_connect (ascii ''FAKE'')], None)
   \<and> Meter_write I ev m_on_fake (ascii ''SENS:FREQ 5'') =
       Inr (m_on_fake\<lparr>m_impl := Some (FakeImpl (FakeMeter_init\<lparr>fm_freq_hz := 5\<rparr>))\<rparr>)
   \<and> Meter_query I ev (m_on_fake\<lparr>m_impl := Some (FakeImpl (FakeMeter_init\<lparr>fm_freq_hz := 5\<rparr>))\<rparr>)
        (ascii ''SENS:FREQ?'') = Inr (ascii ''5'')
   \<and> Meter_connect I ev (m_on_fake\<lparr>m_impl := Some (FakeImpl (FakeMeter_init\<lparr>fm_freq_hz := 5\<rparr>))\<rparr>)
        (ascii ''fake'') 5000 [Ev_FakeMeter_connect (ascii ''FAKE'')] =
       (m_on_fake,
        [Ev_FakeMeter_connect (ascii ''FAKE''), Ev_FakeMeter_close,
         Ev_FakeMeter_connect (ascii ''FAKE'')], None)
   \<and> Meter_query I ev m_on_fake (ascii ''SENS:FREQ?'') = Inr (ascii ''1000000000'')"
proof -
  have u: "upper I (strip (ascii ''fake'')) = ascii ''FAKE''"
    by (simp add: strip_def is_space_def upper_def upper_char_def ascii_def is_ascii_def)
  have d: "ascii ''FAKE'' \<noteq> ascii ''fake''" by (simp add: ascii_def)
  have d5: "decimal_string 5 = ascii ''5''"
    by (simp add: decimal_string_def str_nat_small digit_char_def ascii_def)
  have "length (decimal_string 5) = 1" unfolding d5 by (simp add: ascii_def)
  then have s5: "str_int I 5 = Inr (ascii ''5'')"
    by (simp add: str_int_def Let_def over_limit_def d5)
  have "\<not> over_limit I (length (str_nat (nat \<bar>5\<bar>))) (length (str_nat (nat \<bar>5\<bar>)))"
    by (simp add: over_limit_def str_nat_small)
  then have "FakeMeter_write I FakeMeter_init (ascii ''SENS:FREQ'' @ ord CHR '' '' # decimal_string 5)
      = Inr (FakeMeter_init\<lparr>fm_freq_hz := 5\<rparr>)"
    using FakeMeter_write_set [of "ascii ''SENS:FREQ''" I FakeMeter_init 5] by simp
  then have w: "FakeMeter_write I FakeMeter_init (ascii ''SENS:FREQ 5'')
      = Inr (FakeMeter_init\<lparr>fm_freq_hz := 5\<rparr>)"
    by (simp add: d5) (simp add: ascii_def)
  have c1: "Meter_connect I ev (Meter_init DEFAULT_BACKENDS) (ascii ''fake'') 5000 [] =
       (m_on_fake, [Ev_FakeMeter_connect (ascii ''FAKE'')], None)"
    by (simp add: Meter_connect_def u Meter_is_connected_to_def Meter_init_def Meter_close_def
        FakeMeter_connect_FAKE m_on_fake_def)
  have w1: "Meter_write I ev m_on_fake (ascii ''SENS:FREQ 5'') =
       Inr (m_on_fake\<lparr>m_impl := Some (FakeImpl (FakeMeter_init\<lparr>fm_freq_hz := 5\<rparr>))\<rparr>)"
    by (simp add: Meter_write_def m_on_fake_def w)
  have q1: "Meter_query I ev
        (m_on_fake\<lparr>m_impl := Some (FakeImpl (FakeMeter_init\<lparr>fm_freq_hz := 5\<rparr>))\<rparr>)
        (ascii ''SENS:FREQ?'') = Inr (ascii ''5'')"
    by (simp add: Meter_query_def FakeMeter_query_freq s5)
  have c2: "Meter_connect I ev
        (m_on_fake\<lparr>m_impl := Some (FakeImpl (FakeMeter_init\<lparr>fm_freq_hz := 5\<rparr>))\<rparr>)
        (ascii ''fake'') 5000 [Ev_FakeMeter_connect (ascii ''FAKE'')] =
       (m_on_fake,
        [Ev_FakeMeter_connect (ascii ''FAKE''), Ev_FakeMeter_close,
         Ev_FakeMeter_connect (ascii ''FAKE'')], None)"
    by (simp add: Meter_connect_def u d Meter_is_connected_to_def Meter_close_def
        FakeMeter_connect_FAKE m_on_fake_def)
  have q2: "Meter_query I ev m_on_fake (ascii ''SENS:FREQ?'') = Inr (ascii ''1000000000'')"
    by (simp add: Meter_query_def m_on_fake_def FakeMeter_query_init)
  from c1 w1 q1 c2 q2 show ?thesis by simp
qed

subsection \<open>Discovery\<close>

lemma set_first_seen [simp]: "set (first_seen xs) = set xs"
  by (induction xs rule: first_seen.induct) auto

lemma distinct_first_seen [simp]: "distinct (first_seen xs)"
  by (induction xs rule: first_seen.induct) auto

lemma removeAll_filter_conv: "removeAll x (filter P xs) = filter (\<lambda>y. P y \<and> y \<noteq> x) xs"
  by (induction xs) auto

lemma first_seen_append:
  "first_seen (xs @ ys) = first_seen xs @ first_seen (filter (\<lambda>y. y \<notin> set xs) ys)"
proof (induction xs arbitrary: ys rule: first_seen.induct)
  case 1
  then show ?case by simp
next
  case (2 x xs)
  have f: "filter (\<lambda>y. y \<notin> set (removeAll x xs)) (removeAll x ys)
      = filter (\<lambda>y. y \<notin> set (x # xs)) ys"
    by (induction ys) auto
  have "first_seen ((x # xs) @ ys) = x # first_seen (removeAll x xs @ removeAll x ys)"
    by simp
  also have "\<dots> = x # first_seen (removeAll x xs)
      @ first_seen (filter (\<lambda>y. y \<notin> set (removeAll x xs)) (removeAll x ys))"
    by (simp only: 2 [of "removeAll x ys"] append_Cons)
  also have "\<dots> = first_seen (x # xs) @ first_seen (filter (\<lambda>y. y \<notin> set (x # xs)) ys)"
    by (simp only: f first_seen.simps append_Cons)
  finally show ?case .
qed

lemma add_resources_first_seen:
  "add_resources res (addrs, set addrs) =
     (addrs @ first_seen (filter (\<lambda>r. r \<notin> set addrs) res), set addrs \<union> set res)"
proof (induction res arbitrary: addrs)
  case Nil
  then show ?case by simp
next
  case (Cons r res)
  show ?case
  proof (cases "r \<in> set addrs")
    case True
    then show ?thesis using Cons [of addrs] by auto
  next
    case False
    have "insert r (set addrs) = set (addrs @ [r])" by simp
    then have "add_resources res (addrs @ [r], insert r (set addrs)) =
        ((addrs @ [r]) @ first_seen (filter (\<lambda>x. x \<notin> set (addrs @ [r])) res),
         set (addrs @ [r]) \<union> set res)"
      using Cons [of "addrs @ [r]"] by simp
    moreover have "filter (\<lambda>x. x \<notin> set (addrs @ [r])) res
        = removeAll r (filter (\<lambda>x. x \<notin> set addrs) res)"
      by (induction res) auto
    ultimately show ?thesis using False by simp
  qed
qed

lemma scan_backends_first_seen:
  "scan_backends ev bes (addrs, set addrs) =
     (addrs @ first_seen (filter (\<lambda>r. r \<notin> set addrs) (concat (map (reported ev) bes))),
      set addrs \<union> set (concat (map (reported ev) bes)))"
proof (induction bes arbitrary: addrs)
  case Nil
  then show ?case by simp
next
  case (Cons be bes)
  let ?a = "addrs @ first_seen (filter (\<lambda>r. r \<notin> set addrs) (reported ev be))"
  have step: "(case visa_ResourceManager ev be of
          Some e \<Rightarrow> (addrs, set addrs)
        | None \<Rightarrow>
            (case visa_list_resources ev be (ascii ''USB?*::INSTR'') of
               Inl e \<Rightarrow> (addrs, set addrs)
             | Inr res \<Rightarrow> add_resources res (addrs, set addrs))) = (?a, set ?a)"
    by (auto simp: reported_def add_resources_first_seen split: option.splits sum.splits)
  have f: "filter (\<lambda>r. r \<notin> set ?a) xs
      = filter (\<lambda>y. y \<notin> set (filter (\<lambda>r. r \<notin> set addrs) (reported ev be)))
          (filter (\<lambda>r. r \<notin> set addrs) xs)" for xs
    by (induction xs) auto
  show ?case
    using Cons [of ?a] by (simp add: step first_seen_append f) auto
qed

text \<open>
  Claim C5. With pyvisa present, the scan returns the addresses reported by the backends,
  backend after backend, each address once at the place where it is first seen; a backend
  whose resource manager or listing raises reports nothing. Without pyvisa the scan is
  empty. The controller appends \<open>FAKE\<close> exactly when the scan does not contain it, so its
  list has no duplicate and always contains \<open>FAKE\<close>.
\<close>

theorem discovery_first_seen:
  "scan_usb_usbtmc ev bes =
     (if HAS_VISA ev then first_seen (concat (map (reported ev) bes)) else [])
   \<and> distinct (scan_usb_usbtmc ev bes)
   \<and> MeasurementController_scan ev =
       (if ascii ''FAKE'' \<in> set (scan_usb_usbtmc ev DEFAULT_BACKENDS)
        then scan_usb_usbtmc ev DEFAULT_BACKENDS
        else scan_usb_usbtmc ev DEFAULT_BACKENDS @ [ascii ''FAKE''])
   \<and> distinct (MeasurementController_scan ev)
   \<and> ascii ''FAKE'' \<in> set (MeasurementController_scan ev)"
proof -
  have s: "scan_usb_usbtmc ev b =
     (if HAS_VISA ev then first_seen (concat (map (reported ev) b)) else [])" for b
    using scan_backends_first_seen [of ev b "[]"] by (simp add: scan_usb_usbtmc_def)
  then have d: "distinct (scan_usb_usbtmc ev b)" for b by simp
  show ?thesis
    using s [of bes] d [of bes] d [of DEFAULT_BACKENDS]
    by (simp add: MeasurementController_scan_def Let_def)
qed

subsection \<open>Peak\<close>

subsection \<open>Peak\<close>

lemma readings_Nil [simp]: "readings F I [] m = []"
  by (simp add: readings_def map_filter_def)


lemma poll_iteration_frame [simp]:
  "app_meter (poll_iteration F I ev app) = app_meter app"
  "app_stop_flag (poll_iteration F I ev app) = app_stop_flag app"
  by (simp_all add: poll_iteration_def Let_def split: sum.splits option.splits)


lemma peak_of_Nil [simp]: "peak_of pk [] = pk"
  by (simp add: peak_of_def split: option.splits)







lemma poll_loop_frame [simp]:
  "app_meter (poll_loop F I evs app) = app_meter app"
  "app_stop_flag (poll_loop F I evs app) = app_stop_flag app"
  by (induction evs arbitrary: app) simp_all







end
